theory Spec2Isabelle
  imports Main "HOL-Library.Word"
begin

section \<open>Data model of package proctl\<close>

text \<open>
  The debugging engine of \<^verbatim>\<open>proctl/proctl.go\<close> and \<^verbatim>\<open>proctl/threads.go\<close>.
  Addresses and register values are \<^verbatim>\<open>uint64\<close>, bytes of target memory are
  \<^verbatim>\<open>byte\<close>. An \<^verbatim>\<open>int64\<close> offset is kept as a 64-bit word as well: the source only
  adds it to an address, and two's complement addition is the same on both readings.
\<close>

type_synonym u64 = "64 word"
type_synonym byte = "8 word"

text \<open>
  Go errors are values. \<open>Errorf fmt args\<close> stands for \<^verbatim>\<open>fmt.Errorf(fmt, args...)\<close>: the
  format string and its arguments are kept apart, so no formatting is modelled.
  \<open>Panic\<close> is a run-time panic (an explicit \<^verbatim>\<open>panic\<close>, a nil pointer dereference, a
  slice index out of range); it travels to the caller like an error, running the
  deferred calls on its way. \<open>OSError\<close> is whatever an operating-system primitive or a
  collaborating parser reports.
\<close>

datatype error =
    BreakPointExistsError u64
  | GoroutineExitingError int
  | ManualStopError
  | ProcessExitedError int int
  | Errorf string "fmtarg list"
  | OSError string
  | Panic string
and fmtarg = AErr error | AU64 u64 | AInt int | AStr string

text \<open>
  \<^verbatim>\<open>BreakPoint\<close> (declared outside the files at hand; these are the fields the engine
  uses). The tables hold pointers \<^verbatim>\<open>*BreakPoint\<close>: a pointer is a natural number, and
  the objects live in the field \<open>objs\<close> of the session, so that \<^verbatim>\<open>bp.Temp = true\<close>
  through a pointer is seen through every other pointer to the same object.
\<close>

record BreakPoint =
  ID :: int
  Addr :: u64
  OriginalData :: "byte list"
  Temp :: bool

type_synonym bpref = nat

text \<open>The \<^verbatim>\<open>Registers\<close> interface: \<^verbatim>\<open>PC()\<close>, \<^verbatim>\<open>SP()\<close> (and \<^verbatim>\<open>SetPC\<close>, below).\<close>

record Registers =
  PC :: u64
  SP :: u64

text \<open>\<^verbatim>\<open>gosym.Func\<close>, as far as the engine reads it.\<close>

record Func =
  Name :: string
  Entry :: u64
  End :: u64

text \<open>\<^verbatim>\<open>frame.FrameDescriptionEntry\<close>, through the three methods the engine calls.\<close>

record FrameDescriptionEntry =
  Cover :: "u64 \<Rightarrow> bool"
  ReturnAddressOffset :: "u64 \<Rightarrow> u64"
  FrameOffset :: "u64 \<Rightarrow> u64"

text \<open>The tasklet \<^verbatim>\<open>G\<close>; its fields \<^verbatim>\<open>PC\<close> and \<^verbatim>\<open>SP\<close> are \<open>G_PC\<close> and \<open>G_SP\<close> here.\<close>

record G =
  Id :: int
  G_PC :: u64
  G_SP :: u64
  GoPC :: u64
  File :: string
  Line :: int
  WaitReason :: string

text \<open>
  The traced process as the operating system holds it: its memory, the register file
  of each thread, the registers \<^verbatim>\<open>saveRegisters\<close> has put aside for each thread, and
  \<open>kernel\<close>, an opaque number for everything else the kernel knows (which thread
  stops next, what is pending), so that the primitives below can answer differently
  from one call to the next.
\<close>

record target =
  mem :: "u64 \<Rightarrow> byte"
  regs :: "int \<Rightarrow> Registers"
  saved :: "int \<Rightarrow> Registers"
  kernel :: nat

text \<open>
  \<^verbatim>\<open>DebuggedProcess\<close>. \<^verbatim>\<open>HWBreakPoints [4]*BreakPoint\<close> is a list of cells, \<open>None\<close>
  for nil. \<^verbatim>\<open>BreakPoints map[uint64]*BreakPoint\<close> is an association list: its order
  is the order in which \<^verbatim>\<open>range\<close> visits the map, which Go leaves open, so a theorem
  about every session covers every order. \<^verbatim>\<open>Threads map[int]*ThreadContext\<close> is the
  list of thread ids in the order \<^verbatim>\<open>range\<close> visits them; a thread context is its
  \<^verbatim>\<open>Id\<close>. The read-only collaborators (symbol table, frame entries, line info,
  source index, DWARF data) are fields of the environment below.
\<close>

record DebuggedProcess =
  Pid :: int
  HWBreakPoints :: "bpref option list"
  BreakPoints :: "(u64 \<times> bpref) list"
  Threads :: "int list"
  CurrentBreakpoint :: "bpref option"
  CurrentThread :: int
  breakpointIDCounter :: int
  running :: bool
  halt :: bool
  exited :: bool
  objs :: "bpref \<Rightarrow> BreakPoint"
  proc :: target

text \<open>
  Everything the two files call and do not define: the operating-system primitives
  (ptrace and wait wrappers), the breakpoint installer, the trap-wait dispatcher, the
  parsers of the debug information and the functions of the Go library that depend
  on the host. Each is a parameter; a theorem below holds for every choice of them.

  A primitive that gets only numbers or a thread (\<^verbatim>\<open>singleStep\<close>, \<^verbatim>\<open>resume\<close>,
  \<^verbatim>\<open>writeMemory(thread, addr, data)\<close>, ...) acts on the traced process alone. The
  ones handed the session (\<^verbatim>\<open>setBreakpoint\<close>, \<^verbatim>\<open>trapWait\<close>, \<^verbatim>\<open>Halt\<close>) may change all
  of it. The debug registers are no part of \<open>target\<close>, so
  \<^verbatim>\<open>clearHardwareBreakpoint(i, tid)\<close> only says whether disarming failed. The fields
  \<open>getregs_err\<close>, \<open>setregs_err\<close>, \<open>peek_err\<close> and \<open>poke_err\<close> say whether reading the
  registers, writing them, reading memory and writing memory fail.
\<close>

record env =
  getregs_err :: "target \<Rightarrow> int \<Rightarrow> error option"
  setregs_err :: "target \<Rightarrow> int \<Rightarrow> u64 \<Rightarrow> error option"
  peek_err :: "target \<Rightarrow> int \<Rightarrow> u64 \<Rightarrow> nat \<Rightarrow> error option"
  poke_err :: "target \<Rightarrow> int \<Rightarrow> u64 \<Rightarrow> byte list \<Rightarrow> error option"
  singleStep :: "int \<Rightarrow> target \<Rightarrow> target \<times> error option"
  resume :: "int \<Rightarrow> target \<Rightarrow> target \<times> error option"
  blocked :: "target \<Rightarrow> int \<Rightarrow> bool"
  saveRegisters :: "int \<Rightarrow> target \<Rightarrow> target \<times> error option"
  restoreRegisters :: "int \<Rightarrow> target \<Rightarrow> target \<times> error option"
  clearHardwareBreakpoint :: "nat \<Rightarrow> int \<Rightarrow> target \<Rightarrow> error option"
  setBreakpoint :: "DebuggedProcess \<Rightarrow> int \<Rightarrow> u64 \<Rightarrow> DebuggedProcess \<times> (error + bpref)"
  trapWait :: "DebuggedProcess \<Rightarrow> DebuggedProcess \<times> (error + int)"
  Halt :: "DebuggedProcess \<Rightarrow> DebuggedProcess \<times> error option"
  LookupFunc :: "string \<Rightarrow> Func option"
  PCToFunc :: "u64 \<Rightarrow> Func option"
  PCToLine :: "u64 \<Rightarrow> string \<times> int \<times> Func option"
  LineToPC :: "string \<Rightarrow> int \<Rightarrow> error + u64"
  FDEForPC :: "u64 \<Rightarrow> error + FrameDescriptionEntry"
  NextLines :: "string \<Rightarrow> int \<Rightarrow> error + int list"
  AllPCsForFileLine :: "string \<Rightarrow> int \<Rightarrow> u64 list"
  allglenval :: "target \<Rightarrow> error + u64"
  addressFor :: "string \<Rightarrow> error + u64"
  parseG :: "target \<Rightarrow> int \<Rightarrow> u64 \<Rightarrow> error + G"
  Abs :: "string \<Rightarrow> error + string"
  Atoi :: "string \<Rightarrow> error + int"
  ParseUint :: "string \<Rightarrow> error + u64"
  ptrsize :: u64

section \<open>Registers and memory\<close>

text \<open>
  Modelled from the spec: \<^verbatim>\<open>registers\<close>, \<^verbatim>\<open>regs.SetPC\<close>, \<^verbatim>\<open>readMemory\<close> and
  \<^verbatim>\<open>writeMemory\<close> are not in the files at hand. Section 2 of the spec gives a
  register view "read PC, read SP, set PC" and a memory I/O that is "byte-granular
  read/write at a target virtual address, per OS thread". Whether a call fails is the
  environment's choice; a call that fails changes nothing.
\<close>

definition registers :: "env \<Rightarrow> target \<Rightarrow> int \<Rightarrow> error + Registers" where
  "registers E t tid =
     (case getregs_err E t tid of Some e \<Rightarrow> Inl e | None \<Rightarrow> Inr (regs t tid))"

definition regs_SetPC :: "env \<Rightarrow> int \<Rightarrow> u64 \<Rightarrow> target \<Rightarrow> target \<times> error option" where
  "regs_SetPC E tid pc t =
     (case setregs_err E t tid pc of
        Some e \<Rightarrow> (t, Some e)
      | None \<Rightarrow> (t\<lparr>regs := (regs t)(tid := (regs t tid)\<lparr>PC := pc\<rparr>)\<rparr>, None))"

fun read_bytes :: "(u64 \<Rightarrow> byte) \<Rightarrow> u64 \<Rightarrow> nat \<Rightarrow> byte list" where
  "read_bytes m a 0 = []"
| "read_bytes m a (Suc n) = m a # read_bytes m (a + 1) n"

fun write_bytes :: "(u64 \<Rightarrow> byte) \<Rightarrow> u64 \<Rightarrow> byte list \<Rightarrow> (u64 \<Rightarrow> byte)" where
  "write_bytes m a [] = m"
| "write_bytes m a (b # bs) = write_bytes (m(a := b)) (a + 1) bs"

text \<open>
  \<^verbatim>\<open>readMemory(thread, addr, data)\<close> fills the caller's buffer of \<open>n\<close> bytes; the
  buffer comes from \<^verbatim>\<open>make\<close>, so it holds zeros when the read fails.
\<close>

definition readMemory :: "env \<Rightarrow> int \<Rightarrow> u64 \<Rightarrow> nat \<Rightarrow> target \<Rightarrow> byte list \<times> error option" where
  "readMemory E tid addr n t =
     (case peek_err E t tid addr n of
        Some e \<Rightarrow> (replicate n 0, Some e)
      | None \<Rightarrow> (read_bytes (mem t) addr n, None))"

text \<open>
  The method \<^verbatim>\<open>thread.readMemory(addr, size)\<close> returns a fresh slice and an error; on
  failure the slice is nil, the empty list.
\<close>

definition thread_readMemory :: "env \<Rightarrow> int \<Rightarrow> u64 \<Rightarrow> nat \<Rightarrow> target \<Rightarrow> byte list \<times> error option" where
  "thread_readMemory E tid addr n t =
     (case peek_err E t tid addr n of
        Some e \<Rightarrow> ([], Some e)
      | None \<Rightarrow> (read_bytes (mem t) addr n, None))"

definition writeMemory :: "env \<Rightarrow> int \<Rightarrow> u64 \<Rightarrow> byte list \<Rightarrow> target \<Rightarrow> target \<times> error option" where
  "writeMemory E tid addr data t =
     (case poke_err E t tid addr data of
        Some e \<Rightarrow> (t, Some e)
      | None \<Rightarrow> (t\<lparr>mem := write_bytes (mem t) addr data\<rparr>, None))"

text \<open>
  \<^verbatim>\<open>binary.LittleEndian.Uint64(b)\<close>: the first eight bytes, least significant first.
  It panics on a shorter slice, which is \<open>None\<close> here.
\<close>

fun le_bytes :: "byte list \<Rightarrow> u64" where
  "le_bytes [] = 0"
| "le_bytes (b # bs) = ucast b + 256 * le_bytes bs"

definition Uint64 :: "byte list \<Rightarrow> u64 option" where
  "Uint64 b = (if length b < 8 then None else Some (le_bytes (take 8 b)))"

section \<open>proctl.go: the breakpoint table\<close>

text \<open>\<^verbatim>\<open>(thread *ThreadContext) Registers\<close> and \<^verbatim>\<open>CurrentPC\<close> (threads.go).\<close>

definition thread_Registers :: "env \<Rightarrow> DebuggedProcess \<Rightarrow> int \<Rightarrow> error + Registers" where
  "thread_Registers E dbp tid =
     (case registers E (proc dbp) tid of
        Inl e \<Rightarrow> Inl (Errorf ''could not get registers: %s'' [AErr e])
      | Inr r \<Rightarrow> Inr r)"

definition thread_CurrentPC :: "env \<Rightarrow> DebuggedProcess \<Rightarrow> int \<Rightarrow> error + u64" where
  "thread_CurrentPC E dbp tid =
     (case thread_Registers E dbp tid of Inl e \<Rightarrow> Inl e | Inr r \<Rightarrow> Inr (PC r))"

text \<open>\<^verbatim>\<open>(thread *ThreadContext) SetPC\<close> (threads.go).\<close>

definition thread_SetPC :: "env \<Rightarrow> DebuggedProcess \<Rightarrow> int \<Rightarrow> u64 \<Rightarrow> DebuggedProcess \<times> error option" where
  "thread_SetPC E dbp tid pc =
     (case thread_Registers E dbp tid of
        Inl e \<Rightarrow> (dbp, Some e)
      | Inr r \<Rightarrow>
          (case regs_SetPC E tid pc (proc dbp) of (t, r) \<Rightarrow> (dbp\<lparr>proc := t\<rparr>, r)))"

text \<open>
  The loop of \<^verbatim>\<open>clearBreakpoint\<close> and \<^verbatim>\<open>FindBreakpoint\<close> over the hardware cells:
  the index and the pointer of the first non-nil cell whose breakpoint is at \<open>addr\<close>.
\<close>

fun hw_at :: "(bpref \<Rightarrow> BreakPoint) \<Rightarrow> u64 \<Rightarrow> nat \<Rightarrow> bpref option list \<Rightarrow> (nat \<times> bpref) option" where
  "hw_at h addr i [] = None"
| "hw_at h addr i (None # cells) = hw_at h addr (Suc i) cells"
| "hw_at h addr i (Some bp # cells) =
     (if Addr (h bp) = addr then Some (i, bp) else hw_at h addr (Suc i) cells)"

text \<open>\<^verbatim>\<open>FindBreakpoint\<close>: hardware cells first, then the software map.\<close>

definition FindBreakpoint :: "DebuggedProcess \<Rightarrow> u64 \<Rightarrow> bpref option" where
  "FindBreakpoint dbp pc =
     (case hw_at (objs dbp) pc 0 (HWBreakPoints dbp) of
        Some (i, bp) \<Rightarrow> Some bp
      | None \<Rightarrow> map_of (BreakPoints dbp) pc)"

text \<open>
  \<^verbatim>\<open>clearBreakpoint(tid, addr)\<close>. On the hardware path the cell is set to nil first
  and the debug register is disarmed after; on the software path the original data
  is written back first and the map entry is deleted after.
\<close>

definition clearBreakpoint :: "env \<Rightarrow> DebuggedProcess \<Rightarrow> int \<Rightarrow> u64 \<Rightarrow> DebuggedProcess \<times> (error + bpref)" where
  "clearBreakpoint E dbp tid addr =
     (case hw_at (objs dbp) addr 0 (HWBreakPoints dbp) of
        Some (i, bp) \<Rightarrow>
          (let dbp1 = dbp\<lparr>HWBreakPoints := (HWBreakPoints dbp)[i := None]\<rparr> in
           case clearHardwareBreakpoint E i tid (proc dbp1) of
             Some e \<Rightarrow> (dbp1, Inl e)
           | None \<Rightarrow> (dbp1, Inr bp))
      | None \<Rightarrow>
          (case map_of (BreakPoints dbp) addr of
             Some bp \<Rightarrow>
               (case writeMemory E tid (Addr (objs dbp bp)) (OriginalData (objs dbp bp)) (proc dbp) of
                  (t, Some e) \<Rightarrow>
                    (dbp\<lparr>proc := t\<rparr>, Inl (Errorf ''could not clear breakpoint %s'' [AErr e]))
                | (t, None) \<Rightarrow>
                    (dbp\<lparr>proc := t, BreakPoints := filter (\<lambda>kv. fst kv \<noteq> addr) (BreakPoints dbp)\<rparr>,
                     Inr bp))
           | None \<Rightarrow> (dbp, Inl (Errorf ''no breakpoint at %#v'' [AU64 addr]))))"

text \<open>\<^verbatim>\<open>Break\<close> and \<^verbatim>\<open>Clear\<close> of the session use the current thread.\<close>

definition dbp_Break :: "env \<Rightarrow> DebuggedProcess \<Rightarrow> u64 \<Rightarrow> DebuggedProcess \<times> (error + bpref)" where
  "dbp_Break E dbp addr = setBreakpoint E dbp (CurrentThread dbp) addr"

definition dbp_Clear :: "env \<Rightarrow> DebuggedProcess \<Rightarrow> u64 \<Rightarrow> DebuggedProcess \<times> (error + bpref)" where
  "dbp_Clear E dbp addr = clearBreakpoint E dbp (CurrentThread dbp) addr"

text \<open>\<^verbatim>\<open>Break\<close> of a thread uses that thread.\<close>

definition thread_Break :: "env \<Rightarrow> DebuggedProcess \<Rightarrow> int \<Rightarrow> u64 \<Rightarrow> DebuggedProcess \<times> (error + bpref)" where
  "thread_Break E dbp tid addr = setBreakpoint E dbp tid addr"

section \<open>threads.go\<close>

text \<open>\<^verbatim>\<open>thread.resume()\<close> hands the thread back to the kernel.\<close>

definition thread_resume :: "env \<Rightarrow> DebuggedProcess \<Rightarrow> int \<Rightarrow> DebuggedProcess \<times> error option" where
  "thread_resume E dbp tid = (case resume E tid (proc dbp) of (t, r) \<Rightarrow> (dbp\<lparr>proc := t\<rparr>, r))"

text \<open>
  The deferred closure of \<^verbatim>\<open>Step\<close>: \<^verbatim>\<open>nbp, err = thread.Process.Break(bp.Addr)\<close>
  overwrites the named result \<^verbatim>\<open>err\<close>, so the result of \<^verbatim>\<open>Step\<close> is the result of
  this \<^verbatim>\<open>Break\<close>; \<^verbatim>\<open>nbp.Temp = bp.Temp\<close> then writes through the new pointer, which
  is nil when \<^verbatim>\<open>Break\<close> failed.
\<close>

definition Step_deferred :: "env \<Rightarrow> DebuggedProcess \<Rightarrow> bpref \<Rightarrow> DebuggedProcess \<times> error option" where
  "Step_deferred E dbp bp =
     (case dbp_Break E dbp (Addr (objs dbp bp)) of
        (dbp1, Inl e) \<Rightarrow> (dbp1, Some (Panic ''nil pointer dereference''))
      | (dbp1, Inr nbp) \<Rightarrow>
          (dbp1\<lparr>objs := (objs dbp1)(nbp := (objs dbp1 nbp)\<lparr>Temp := Temp (objs dbp1 bp)\<rparr>)\<rparr>, None))"

text \<open>\<^verbatim>\<open>(thread *ThreadContext) Step\<close>.\<close>

definition thread_Step :: "env \<Rightarrow> DebuggedProcess \<Rightarrow> int \<Rightarrow> DebuggedProcess \<times> error option" where
  "thread_Step E dbp tid =
     (case thread_CurrentPC E dbp tid of
        Inl e \<Rightarrow> (dbp, Some e)
      | Inr pc \<Rightarrow>
          (case map_of (BreakPoints dbp) (pc - 1) of
             None \<Rightarrow>
               (case singleStep E tid (proc dbp) of
                  (t, Some e) \<Rightarrow> (dbp\<lparr>proc := t\<rparr>, Some (Errorf ''step failed: %s'' [AErr e]))
                | (t, None) \<Rightarrow> (dbp\<lparr>proc := t\<rparr>, None))
           | Some bp \<Rightarrow>
               (case dbp_Clear E dbp (Addr (objs dbp bp)) of
                  (dbp1, Inl e) \<Rightarrow> (dbp1, Some e)
                | (dbp1, Inr cleared) \<Rightarrow>
                    (case thread_SetPC E dbp1 tid (Addr (objs dbp1 bp)) of
                       (dbp2, Some e) \<Rightarrow>
                         (dbp2, Some (Errorf ''could not set registers %s'' [AErr e]))
                     | (dbp2, None) \<Rightarrow>
                         (case singleStep E tid (proc dbp2) of
                            (t, r) \<Rightarrow> Step_deferred E (dbp2\<lparr>proc := t\<rparr>) bp)))))"

text \<open>
  \<^verbatim>\<open>(thread *ThreadContext) Continue\<close>. A panic of \<^verbatim>\<open>Step\<close> is not an error value
  and passes the \<^verbatim>\<open>fmt.Errorf\<close> by.
\<close>

definition thread_Continue :: "env \<Rightarrow> DebuggedProcess \<Rightarrow> int \<Rightarrow> DebuggedProcess \<times> error option" where
  "thread_Continue E dbp tid =
     (case thread_CurrentPC E dbp tid of
        Inl e \<Rightarrow> (dbp, Some e)
      | Inr pc \<Rightarrow>
          (case map_of (BreakPoints dbp) (pc - 1) of
             Some bp \<Rightarrow>
               (case thread_Step E dbp tid of
                  (dbp1, Some (Panic m)) \<Rightarrow> (dbp1, Some (Panic m))
                | (dbp1, Some e) \<Rightarrow> (dbp1, Some (Errorf ''could not step %s'' [AErr e]))
                | (dbp1, None) \<Rightarrow> thread_resume E dbp1 tid)
           | None \<Rightarrow> thread_resume E dbp tid))"

text \<open>
  \<^verbatim>\<open>CallFn(name, fn)\<close>. The two deferred calls run on every way out after their
  \<^verbatim>\<open>defer\<close> statement, last one first; the argument \<^verbatim>\<open>bp.Addr\<close> of the deferred
  \<^verbatim>\<open>Clear\<close> is evaluated at the \<^verbatim>\<open>defer\<close> statement, and its result is dropped. The
  callback returns what it computed together with its error.
\<close>

definition CallFn :: "env \<Rightarrow> DebuggedProcess \<Rightarrow> int \<Rightarrow> string \<Rightarrow>
    (DebuggedProcess \<Rightarrow> DebuggedProcess \<times> (error + 'a)) \<Rightarrow> DebuggedProcess \<times> (error + 'a)" where
  "CallFn E dbp tid name fn =
     (case LookupFunc E name of
        None \<Rightarrow> (dbp, Inl (Errorf ''could not find function %s'' [AStr name]))
      | Some f \<Rightarrow>
          (case thread_Break E dbp tid (End f - 2) of
             (dbp1, Inl e) \<Rightarrow> (dbp1, Inl e)
           | (dbp1, Inr bp) \<Rightarrow>
               (let addr = Addr (objs dbp1 bp);
                    deferred_Clear = (\<lambda>d. fst (dbp_Clear E d addr));
                    deferred_restore = (\<lambda>d. d\<lparr>proc := fst (restoreRegisters E tid (proc d))\<rparr>)
                in case saveRegisters E tid (proc dbp1) of
                     (t, Some e) \<Rightarrow> (deferred_Clear (dbp1\<lparr>proc := t\<rparr>), Inl e)
                   | (t, None) \<Rightarrow>
                       (case thread_SetPC E (dbp1\<lparr>proc := t\<rparr>) tid (Entry f) of
                          (dbp2, Some e) \<Rightarrow> (deferred_Clear dbp2, Inl e)
                        | (dbp2, None) \<Rightarrow>
                            (case thread_Continue E dbp2 tid of
                               (dbp3, Some e) \<Rightarrow> (deferred_Clear (deferred_restore dbp3), Inl e)
                             | (dbp3, None) \<Rightarrow>
                                 (case trapWait E dbp3 of
                                    (dbp4, Inl e) \<Rightarrow>
                                      (deferred_Clear (deferred_restore dbp4), Inl e)
                                  | (dbp4, Inr stopped) \<Rightarrow>
                                      (case fn dbp4 of
                                         (dbp5, r) \<Rightarrow>
                                           (deferred_Clear (deferred_restore dbp5), r))))))))"

text \<open>\<^verbatim>\<open>curG\<close>: the tasklet running on the thread, read inside \<^verbatim>\<open>runtime.getg\<close>.\<close>

definition curG :: "env \<Rightarrow> DebuggedProcess \<Rightarrow> int \<Rightarrow> DebuggedProcess \<times> (error + G)" where
  "curG E dbp tid =
     CallFn E dbp tid ''runtime.getg''
       (\<lambda>d. case thread_Registers E d tid of
               Inl e \<Rightarrow> (d, Inl e)
             | Inr r \<Rightarrow> (d, parseG E (proc d) tid (SP r + ptrsize E)))"

text \<open>
  \<^verbatim>\<open>ReturnAddressFromOffset(offset)\<close>: eight bytes at SP + offset, little-endian. It
  panics when the registers cannot be read; the error of \<^verbatim>\<open>readMemory\<close> is dropped.
\<close>

definition ReturnAddressFromOffset :: "env \<Rightarrow> DebuggedProcess \<Rightarrow> int \<Rightarrow> u64 \<Rightarrow> error + u64" where
  "ReturnAddressFromOffset E dbp tid offset =
     (case thread_Registers E dbp tid of
        Inl e \<Rightarrow> Inl (Panic ''Could not obtain register values'')
      | Inr r \<Rightarrow>
          (case Uint64 (fst (readMemory E tid (SP r + offset) 8 (proc dbp))) of
             None \<Rightarrow> Inl (Panic ''index out of range'')
           | Some ret \<Rightarrow> Inr ret))"

text \<open>
  The inner loop of \<^verbatim>\<open>(thread *ThreadContext) next\<close>, over the PCs of one candidate
  line, and the outer loop over the candidate lines. In
  \<^verbatim>\<open>if err, ok := err.(BreakPointExistsError); !ok { return err }\<close> the short
  declaration makes a new \<^verbatim>\<open>err\<close> of type \<^verbatim>\<open>BreakPointExistsError\<close> in the scope of the
  \<^verbatim>\<open>if\<close>; when the assertion fails it holds the zero value of that type, and that is
  what \<^verbatim>\<open>return err\<close> returns.
\<close>

definition zero_BreakPointExistsError :: error where
  "zero_BreakPointExistsError = BreakPointExistsError 0"

fun next_pcs :: "env \<Rightarrow> DebuggedProcess \<Rightarrow> int \<Rightarrow> u64 \<Rightarrow> FrameDescriptionEntry \<Rightarrow> u64 list \<Rightarrow>
    DebuggedProcess \<times> error option" where
  "next_pcs E dbp tid curpc fde [] = (dbp, None)"
| "next_pcs E dbp tid curpc fde (pc # pcs) =
     (if pc = curpc then next_pcs E dbp tid curpc fde pcs
      else
        (case (if \<not> Cover fde pc
               then ReturnAddressFromOffset E dbp tid (ReturnAddressOffset fde curpc)
               else Inr pc) of
           Inl p \<Rightarrow> (dbp, Some p)
         | Inr pc' \<Rightarrow>
             (case dbp_Break E dbp pc' of
                (dbp1, Inl (BreakPointExistsError a)) \<Rightarrow> next_pcs E dbp1 tid curpc fde pcs
              | (dbp1, Inl e) \<Rightarrow> (dbp1, Some zero_BreakPointExistsError)
              | (dbp1, Inr bp) \<Rightarrow>
                  next_pcs E (dbp1\<lparr>objs := (objs dbp1)(bp := (objs dbp1 bp)\<lparr>Temp := True\<rparr>)\<rparr>)
                    tid curpc fde pcs)))"

fun next_lines :: "env \<Rightarrow> DebuggedProcess \<Rightarrow> int \<Rightarrow> u64 \<Rightarrow> FrameDescriptionEntry \<Rightarrow> string \<Rightarrow>
    int list \<Rightarrow> DebuggedProcess \<times> error option" where
  "next_lines E dbp tid curpc fde file [] = (dbp, None)"
| "next_lines E dbp tid curpc fde file (l # ls) =
     (case next_pcs E dbp tid curpc fde (AllPCsForFileLine E file l) of
        (dbp1, Some e) \<Rightarrow> (dbp1, Some e)
      | (dbp1, None) \<Rightarrow> next_lines E dbp1 tid curpc fde file ls)"

text \<open>\<^verbatim>\<open>(thread *ThreadContext) next(curpc, fde, file, line)\<close>.\<close>

definition thread_next :: "env \<Rightarrow> DebuggedProcess \<Rightarrow> int \<Rightarrow> u64 \<Rightarrow> FrameDescriptionEntry \<Rightarrow>
    string \<Rightarrow> int \<Rightarrow> DebuggedProcess \<times> error option" where
  "thread_next E dbp tid curpc fde file line =
     (case NextLines E file line of
        Inl e \<Rightarrow> (dbp, Some e)
      | Inr lines \<Rightarrow>
          if length lines = 0 then
            (case ReturnAddressFromOffset E dbp tid (ReturnAddressOffset fde curpc) of
               Inl p \<Rightarrow> (dbp, Some p)
             | Inr ret \<Rightarrow>
                 (case snd (snd (PCToLine E ret)) of
                    None \<Rightarrow> (dbp, None)
                  | Some fn \<Rightarrow>
                      if Name fn = ''runtime.goexit'' then
                        (case curG E dbp tid of
                           (dbp1, Inl e) \<Rightarrow> (dbp1, Some e)
                         | (dbp1, Inr g) \<Rightarrow> (dbp1, Some (GoroutineExitingError (Id g))))
                      else (dbp, None)))
          else next_lines E dbp tid curpc fde file lines)"

text \<open>\<^verbatim>\<open>cnext\<close> does nothing.\<close>

definition thread_cnext :: "env \<Rightarrow> DebuggedProcess \<Rightarrow> int \<Rightarrow> u64 \<Rightarrow> FrameDescriptionEntry \<Rightarrow>
    string \<Rightarrow> int \<Rightarrow> DebuggedProcess \<times> error option" where
  "thread_cnext E dbp tid curpc fde file line = (dbp, None)"

text \<open>
  \<^verbatim>\<open>filepath.Ext\<close>: the suffix from the last dot of the last path element, the dot
  included; empty when that element has no dot.
\<close>

fun Ext_rev :: "string \<Rightarrow> string \<Rightarrow> string" where
  "Ext_rev [] acc = []"
| "Ext_rev (c # cs) acc =
     (if c = CHR ''/'' then []
      else if c = CHR ''.'' then c # acc
      else Ext_rev cs (c # acc))"

definition Ext :: "string \<Rightarrow> string" where
  "Ext path = Ext_rev (rev path) []"

text \<open>\<^verbatim>\<open>(thread *ThreadContext) Next\<close>.\<close>

definition thread_Next :: "env \<Rightarrow> DebuggedProcess \<Rightarrow> int \<Rightarrow> DebuggedProcess \<times> error option" where
  "thread_Next E dbp tid =
     (case thread_CurrentPC E dbp tid of
        Inl e \<Rightarrow> (dbp, Some e)
      | Inr pc \<Rightarrow>
          (let curpc = (case map_of (BreakPoints dbp) (pc - 1) of
                          Some bp \<Rightarrow> Addr (objs dbp bp)
                        | None \<Rightarrow> pc)
           in case FDEForPC E curpc of
                Inl e \<Rightarrow> (dbp, Some e)
              | Inr fde \<Rightarrow>
                  (case PCToLine E curpc of
                     (f, l, fn) \<Rightarrow>
                       (case (if Ext f = ''.go''
                              then thread_next E dbp tid curpc fde f l
                              else thread_cnext E dbp tid curpc fde f l) of
                          (dbp1, Some e) \<Rightarrow> (dbp1, Some e)
                        | (dbp1, None) \<Rightarrow> thread_Continue E dbp1 tid))))"

text \<open>
  The loop of \<^verbatim>\<open>clearTempBreakpoint\<close> over the hardware cells: the first non-nil cell
  whose breakpoint is temp and at \<open>pc\<close>.
\<close>

fun hw_temp_at :: "(bpref \<Rightarrow> BreakPoint) \<Rightarrow> u64 \<Rightarrow> bpref option list \<Rightarrow> bpref option" where
  "hw_temp_at h pc [] = None"
| "hw_temp_at h pc (None # cells) = hw_temp_at h pc cells"
| "hw_temp_at h pc (Some bp # cells) =
     (if Temp (h bp) \<and> Addr (h bp) = pc then Some bp else hw_temp_at h pc cells)"

text \<open>The closure \<^verbatim>\<open>clearbp\<close> of \<^verbatim>\<open>clearTempBreakpoint\<close>.\<close>

definition clearbp :: "env \<Rightarrow> DebuggedProcess \<Rightarrow> int \<Rightarrow> bpref \<Rightarrow> DebuggedProcess \<times> error option" where
  "clearbp E dbp tid bp =
     (case dbp_Clear E dbp (Addr (objs dbp bp)) of
        (dbp1, Inl e) \<Rightarrow> (dbp1, Some e)
      | (dbp1, Inr cleared) \<Rightarrow> thread_SetPC E dbp1 tid (Addr (objs dbp1 bp)))"

text \<open>\<^verbatim>\<open>(thread *ThreadContext) clearTempBreakpoint(pc)\<close>.\<close>

definition clearTempBreakpoint :: "env \<Rightarrow> DebuggedProcess \<Rightarrow> int \<Rightarrow> u64 \<Rightarrow> DebuggedProcess \<times> error option" where
  "clearTempBreakpoint E dbp tid pc =
     (case hw_temp_at (objs dbp) pc (HWBreakPoints dbp) of
        Some bp \<Rightarrow> clearbp E dbp tid bp
      | None \<Rightarrow>
          (case map_of (BreakPoints dbp) pc of
             Some bp \<Rightarrow> if Temp (objs dbp bp) then clearbp E dbp tid bp else (dbp, None)
           | None \<Rightarrow> (dbp, None)))"

section \<open>proctl.go: locations, tasklets, next and resume\<close>

text \<open>\<^verbatim>\<open>strings.Split(s, sep)\<close> for a separator of one character.\<close>

fun Split :: "char \<Rightarrow> string \<Rightarrow> string list" where
  "Split c [] = [[]]"
| "Split c (x # xs) =
     (if x = c then [] # Split c xs
      else (case Split c xs of [] \<Rightarrow> [[x]] | p # ps \<Rightarrow> (x # p) # ps))"

text \<open>
  The two loops of \<^verbatim>\<open>FindLocation\<close> that look a breakpoint up by id:
  \<^verbatim>\<open>uint64(bp.ID) == id\<close>, first over the hardware cells, then over the map.
\<close>

fun hw_by_id :: "(bpref \<Rightarrow> BreakPoint) \<Rightarrow> u64 \<Rightarrow> bpref option list \<Rightarrow> bpref option" where
  "hw_by_id h n [] = None"
| "hw_by_id h n (None # cells) = hw_by_id h n cells"
| "hw_by_id h n (Some bp # cells) =
     (if word_of_int (ID (h bp)) = n then Some bp else hw_by_id h n cells)"

fun sw_by_id :: "(bpref \<Rightarrow> BreakPoint) \<Rightarrow> u64 \<Rightarrow> (u64 \<times> bpref) list \<Rightarrow> bpref option" where
  "sw_by_id h n [] = None"
| "sw_by_id h n ((k, bp) # entries) =
     (if word_of_int (ID (h bp)) = n then Some bp else sw_by_id h n entries)"

text \<open>\<^verbatim>\<open>FindLocation(str)\<close>.\<close>

definition FindLocation :: "env \<Rightarrow> DebuggedProcess \<Rightarrow> string \<Rightarrow> error + u64" where
  "FindLocation E dbp str =
     (if CHR '':'' \<in> set str then
        (case Split (CHR '':'') str of
           f0 # f1 # fl \<Rightarrow>
             (case Abs E f0 of
                Inl e \<Rightarrow> Inl e
              | Inr fileName \<Rightarrow>
                  (case Atoi E f1 of
                     Inl e \<Rightarrow> Inl e
                   | Inr line \<Rightarrow>
                       (case LineToPC E fileName line of Inl e \<Rightarrow> Inl e | Inr pc \<Rightarrow> Inr pc)))
         | fl \<Rightarrow> Inl (Panic ''index out of range''))
      else
        (case LookupFunc E str of
           Some fn \<Rightarrow> Inr (Entry fn)
         | None \<Rightarrow>
             (case ParseUint E str of
                Inl e \<Rightarrow> Inl (Errorf ''unable to find location for %s'' [AStr str])
              | Inr n \<Rightarrow>
                  (case hw_by_id (objs dbp) n (HWBreakPoints dbp) of
                     Some bp \<Rightarrow> Inr (Addr (objs dbp bp))
                   | None \<Rightarrow>
                       (case sw_by_id (objs dbp) n (BreakPoints dbp) of
                          Some bp \<Rightarrow> Inr (Addr (objs dbp bp))
                        | None \<Rightarrow> Inr n)))))"

text \<open>
  \<^verbatim>\<open>clearTempBreakpoints\<close>. \<^verbatim>\<open>range dbp.HWBreakPoints\<close> ranges over an array value, so
  the loop visits the cells as they were when it started. \<^verbatim>\<open>range dbp.BreakPoints\<close>
  ranges over the map itself: an entry deleted before the loop reaches it is not
  visited. Each loop stops at the first \<^verbatim>\<open>Clear\<close> that fails.
\<close>

fun clearTemp_hw :: "env \<Rightarrow> DebuggedProcess \<Rightarrow> bpref option list \<Rightarrow> DebuggedProcess \<times> error option" where
  "clearTemp_hw E dbp [] = (dbp, None)"
| "clearTemp_hw E dbp (None # cells) = clearTemp_hw E dbp cells"
| "clearTemp_hw E dbp (Some bp # cells) =
     (if Temp (objs dbp bp) then
        (case dbp_Clear E dbp (Addr (objs dbp bp)) of
           (dbp1, Inl e) \<Rightarrow> (dbp1, Some e)
         | (dbp1, Inr cleared) \<Rightarrow> clearTemp_hw E dbp1 cells)
      else clearTemp_hw E dbp cells)"

fun clearTemp_sw :: "env \<Rightarrow> DebuggedProcess \<Rightarrow> (u64 \<times> bpref) list \<Rightarrow> DebuggedProcess \<times> error option" where
  "clearTemp_sw E dbp [] = (dbp, None)"
| "clearTemp_sw E dbp ((k, bp) # entries) =
     (if (k, bp) \<notin> set (BreakPoints dbp) then clearTemp_sw E dbp entries
      else if \<not> Temp (objs dbp bp) then clearTemp_sw E dbp entries
      else
        (case dbp_Clear E dbp (Addr (objs dbp bp)) of
           (dbp1, Inl e) \<Rightarrow> (dbp1, Some e)
         | (dbp1, Inr cleared) \<Rightarrow> clearTemp_sw E dbp1 entries))"

definition clearTempBreakpoints :: "env \<Rightarrow> DebuggedProcess \<Rightarrow> DebuggedProcess \<times> error option" where
  "clearTempBreakpoints E dbp =
     (case clearTemp_hw E dbp (HWBreakPoints dbp) of
        (dbp1, Some e) \<Rightarrow> (dbp1, Some e)
      | (dbp1, None) \<Rightarrow> clearTemp_sw E dbp1 (BreakPoints dbp1))"

text \<open>
  \<^verbatim>\<open>GoroutinesInfo\<close>. The loop \<^verbatim>\<open>for i := uint64(0); i < allglen; i++\<close> runs
  \<open>unat allglen\<close> times. The error of \<^verbatim>\<open>dbp.CurrentThread.readMemory\<close> is assigned and
  never looked at; \<^verbatim>\<open>binary.LittleEndian.Uint64\<close> is applied to whatever slice came
  back.
\<close>

fun allg_walk :: "env \<Rightarrow> target \<Rightarrow> int \<Rightarrow> u64 \<Rightarrow> u64 \<Rightarrow> nat \<Rightarrow> G list \<Rightarrow> error + G list" where
  "allg_walk E t tid allgptr i 0 allg = Inr allg"
| "allg_walk E t tid allgptr i (Suc k) allg =
     (case parseG E t tid (allgptr + i * ptrsize E) of
        Inl e \<Rightarrow> Inl e
      | Inr g \<Rightarrow> allg_walk E t tid allgptr (i + 1) k (allg @ [g]))"

definition GoroutinesInfo :: "env \<Rightarrow> DebuggedProcess \<Rightarrow> error + G list" where
  "GoroutinesInfo E dbp =
     (case allglenval E (proc dbp) of
        Inl e \<Rightarrow> Inl e
      | Inr allglen \<Rightarrow>
          (case addressFor E ''runtime.allg'' of
             Inl e \<Rightarrow> Inl e
           | Inr allgentryaddr \<Rightarrow>
               (case thread_readMemory E (CurrentThread dbp) allgentryaddr (unat (ptrsize E)) (proc dbp) of
                  (faddr, err) \<Rightarrow>
                    (case Uint64 faddr of
                       None \<Rightarrow> Inl (Panic ''index out of range'')
                     | Some allgptr \<Rightarrow>
                         allg_walk E (proc dbp) (CurrentThread dbp) allgptr 0 (unat allglen) []))))"

text \<open>\<^verbatim>\<open>SwitchThread(tid)\<close>.\<close>

definition SwitchThread :: "DebuggedProcess \<Rightarrow> int \<Rightarrow> DebuggedProcess \<times> error option" where
  "SwitchThread dbp tid =
     (if tid \<in> set (Threads dbp) then (dbp\<lparr>CurrentThread := tid\<rparr>, None)
      else (dbp, Some (Errorf ''thread %d does not exist'' [AInt tid])))"

text \<open>\<^verbatim>\<open>handleBreakpointOnThread(id)\<close>, which the trap-wait dispatcher calls.\<close>

definition handleBreakpointOnThread :: "env \<Rightarrow> DebuggedProcess \<Rightarrow> int \<Rightarrow> DebuggedProcess \<times> (error + int)" where
  "handleBreakpointOnThread E dbp tid =
     (if tid \<notin> set (Threads dbp) then
        (dbp, Inl (Errorf ''could not find thread for %d'' [AInt tid]))
      else
        (case thread_CurrentPC E dbp tid of
           Inl e \<Rightarrow> (dbp, Inl e)
         | Inr pc \<Rightarrow>
             (case hw_at (objs dbp) pc 0 (HWBreakPoints dbp) of
                Some (i, bp) \<Rightarrow> (dbp\<lparr>CurrentBreakpoint := Some bp\<rparr>, Inr tid)
              | None \<Rightarrow>
                  (case map_of (BreakPoints dbp) (pc - 1) of
                     Some bp \<Rightarrow> (dbp\<lparr>CurrentBreakpoint := Some bp\<rparr>, Inr tid)
                   | None \<Rightarrow> (dbp, Inr tid)))))"

text \<open>
  The session's \<^verbatim>\<open>next\<close>, in the order of the source. First the loop over the
  tasklets: the block for a tasklet waiting in "chan receive" prints, and returns
  when a frame entry is missing; the two reads of memory in it change nothing and
  their errors are dropped.
\<close>

fun next_chanrecv :: "env \<Rightarrow> DebuggedProcess \<Rightarrow> G list \<Rightarrow> error option" where
  "next_chanrecv E dbp [] = None"
| "next_chanrecv E dbp (g # gs) =
     (if WaitReason g = ''chan receive'' then
        (case FDEForPC E (G_PC g) of
           Inl e \<Rightarrow> Some e
         | Inr fde \<Rightarrow>
             (let retaddr = G_SP g + ReturnAddressOffset fde (G_PC g);
                  ret = le_bytes (fst (readMemory E (CurrentThread dbp) retaddr 8 (proc dbp)))
              in case FDEForPC E ret of
                   Inl e \<Rightarrow> Some e
                 | Inr fde2 \<Rightarrow> next_chanrecv E dbp gs))
      else next_chanrecv E dbp gs)"

text \<open>
  The loop over the threads. After \<^verbatim>\<open>th.Next()\<close> fails the body starts with
  \<^verbatim>\<open>return err\<close>; the test for \<^verbatim>\<open>GoroutineExitingError\<close> and its \<^verbatim>\<open>continue\<close> come
  after that statement and are never reached.
\<close>

fun next_threads :: "env \<Rightarrow> DebuggedProcess \<Rightarrow> int list \<Rightarrow> DebuggedProcess \<times> error option" where
  "next_threads E dbp [] = (dbp, None)"
| "next_threads E dbp (th # ths) =
     (if blocked E (proc dbp) th then
        (case thread_Continue E dbp th of
           (dbp1, Some e) \<Rightarrow> (dbp1, Some e)
         | (dbp1, None) \<Rightarrow> next_threads E dbp1 ths)
      else
        (case thread_Next E dbp th of
           (dbp1, Some e) \<Rightarrow> (dbp1, Some e)
         | (dbp1, None) \<Rightarrow> next_threads E dbp1 ths))"

text \<open>
  The loop \<^verbatim>\<open>for { thread, err := trapWait(dbp, -1) ... }\<close> has no bound: the first
  argument is the number of rounds allowed, and \<open>None\<close> says they did not suffice.
\<close>

fun next_wait :: "nat \<Rightarrow> env \<Rightarrow> DebuggedProcess \<Rightarrow> G \<Rightarrow> (DebuggedProcess \<times> error option) option" where
  "next_wait 0 E dbp curg = None"
| "next_wait (Suc n) E dbp curg =
     (case trapWait E dbp of
        (dbp1, Inl e) \<Rightarrow> Some (dbp1, Some e)
      | (dbp1, Inr thread) \<Rightarrow>
          (case (case CurrentBreakpoint dbp1 of
                   Some cb \<Rightarrow> clearTempBreakpoint E dbp1 thread (Addr (objs dbp1 cb))
                 | None \<Rightarrow> (dbp1, None)) of
             (dbp2, Some e) \<Rightarrow> Some (dbp2, Some e)
           | (dbp2, None) \<Rightarrow>
               (case curG E dbp2 thread of
                  (dbp3, Inl e) \<Rightarrow> Some (dbp3, Some e)
                | (dbp3, Inr tg) \<Rightarrow>
                    if Id tg = Id curg then
                      Some (if CurrentThread dbp3 \<noteq> thread
                            then fst (SwitchThread dbp3 thread) else dbp3, None)
                    else next_wait n E dbp3 curg)))"

text \<open>
  What \<^verbatim>\<open>next\<close> does after \<^verbatim>\<open>defer dbp.clearTempBreakpoints()\<close>, up to its \<^verbatim>\<open>return\<close>.
\<close>

definition next_body :: "nat \<Rightarrow> env \<Rightarrow> DebuggedProcess \<Rightarrow> G \<Rightarrow> (DebuggedProcess \<times> error option) option" where
  "next_body n E dbp curg =
     (case GoroutinesInfo E dbp of
        Inl e \<Rightarrow> Some (dbp, Some e)
      | Inr allg \<Rightarrow>
          (case next_chanrecv E dbp allg of
             Some e \<Rightarrow> Some (dbp, Some e)
           | None \<Rightarrow>
               (case next_threads E dbp (Threads dbp) of
                  (dbp1, Some e) \<Rightarrow> Some (dbp1, Some e)
                | (dbp1, None) \<Rightarrow>
                    (case next_wait n E dbp1 curg of
                       None \<Rightarrow> None
                     | Some (dbp2, Some e) \<Rightarrow> Some (dbp2, Some e)
                     | Some (dbp2, None) \<Rightarrow> Some (Halt E dbp2)))))"

text \<open>
  \<^verbatim>\<open>(dbp *DebuggedProcess) next\<close>. The \<^verbatim>\<open>defer\<close> statement stands after the first
  \<^verbatim>\<open>return err\<close>, so that return runs no cleanup; every later way out runs
  \<^verbatim>\<open>clearTempBreakpoints\<close> and drops its error.
\<close>

definition dbp_next :: "nat \<Rightarrow> env \<Rightarrow> DebuggedProcess \<Rightarrow> (DebuggedProcess \<times> error option) option" where
  "dbp_next n E dbp =
     (case curG E dbp (CurrentThread dbp) of
        (dbp1, Inl e) \<Rightarrow> Some (dbp1, Some e)
      | (dbp1, Inr curg) \<Rightarrow>
          (case next_body n E dbp1 curg of
             None \<Rightarrow> None
           | Some (dbp2, r) \<Rightarrow> Some (fst (clearTempBreakpoints E dbp2), r)))"

text \<open>The loop \<^verbatim>\<open>for i := 0; i < 2; i++\<close> of \<^verbatim>\<open>resume\<close>, counting down.\<close>

fun resume_steps :: "nat \<Rightarrow> env \<Rightarrow> DebuggedProcess \<Rightarrow> int \<Rightarrow> DebuggedProcess \<times> error option" where
  "resume_steps 0 E dbp thread = (dbp, None)"
| "resume_steps (Suc k) E dbp thread =
     (case thread_Step E dbp thread of
        (dbp1, Some e) \<Rightarrow> (dbp1, Some e)
      | (dbp1, None) \<Rightarrow> resume_steps k E dbp1 thread)"

text \<open>\<^verbatim>\<open>(dbp *DebuggedProcess) resume\<close>.\<close>

definition dbp_resume :: "env \<Rightarrow> DebuggedProcess \<Rightarrow> DebuggedProcess \<times> error option" where
  "dbp_resume E dbp =
     (case trapWait E dbp of
        (dbp1, Inl e) \<Rightarrow> (dbp1, Some e)
      | (dbp1, Inr thread) \<Rightarrow>
          (let dbp2 = (if CurrentThread dbp1 \<noteq> thread
                       then fst (SwitchThread dbp1 thread) else dbp1)
           in case thread_CurrentPC E dbp2 thread of
                Inl e \<Rightarrow> (dbp2, Some e)
              | Inr pc \<Rightarrow>
                  if (case CurrentBreakpoint dbp2 of
                        Some cb \<Rightarrow> \<not> Temp (objs dbp2 cb)
                      | None \<Rightarrow> False)
                  then Halt E dbp2
                  else if (case PCToFunc E pc of
                             Some fn \<Rightarrow> Name fn = ''runtime.breakpoint''
                           | None \<Rightarrow> False)
                  then
                    (case resume_steps 2 E dbp2 thread of
                       (dbp3, Some e) \<Rightarrow> (dbp3, Some e)
                     | (dbp3, None) \<Rightarrow> Halt E dbp3)
                  else (dbp2, Some (Errorf ''unrecognized breakpoint %#v'' [AU64 pc]))))"

section \<open>Invariants of the breakpoint table\<close>

text \<open>
  The pointers the table holds: those of the non-nil hardware cells, in order, then
  those of the software map.
\<close>

definition hw_refs :: "bpref option list \<Rightarrow> bpref list" where
  "hw_refs cells = concat (map (\<lambda>c. case c of Some bp \<Rightarrow> [bp] | None \<Rightarrow> []) cells)"

definition stored :: "DebuggedProcess \<Rightarrow> bpref list" where
  "stored dbp = hw_refs (HWBreakPoints dbp) @ map snd (BreakPoints dbp)"

text \<open>
  The invariants of section 3 of the spec that the installer keeps: at most one
  breakpoint per address across both kinds; the software map is keyed by the address
  of the breakpoint it holds; a software breakpoint holds the single byte it replaced.
\<close>

definition unique_addrs :: "DebuggedProcess \<Rightarrow> bool" where
  "unique_addrs dbp = distinct (map (\<lambda>bp. Addr (objs dbp bp)) (stored dbp))"

definition keyed_by_addr :: "DebuggedProcess \<Rightarrow> bool" where
  "keyed_by_addr dbp = list_all (\<lambda>kv. Addr (objs dbp (snd kv)) = fst kv) (BreakPoints dbp)"

definition single_byte :: "DebuggedProcess \<Rightarrow> bool" where
  "single_byte dbp =
     list_all (\<lambda>kv. length (OriginalData (objs dbp (snd kv))) = 1) (BreakPoints dbp)"

text \<open>
  The hardware cells and the software map with the temp breakpoints taken out: a
  cell that held one is nil, an entry that held one is gone.
\<close>

definition hw_without_temp :: "(bpref \<Rightarrow> BreakPoint) \<Rightarrow> bpref option list \<Rightarrow> bpref option list" where
  "hw_without_temp h cells =
     map (\<lambda>c. case c of Some bp \<Rightarrow> if Temp (h bp) then None else Some bp | None \<Rightarrow> None) cells"

definition sw_without_temp :: "(bpref \<Rightarrow> BreakPoint) \<Rightarrow> (u64 \<times> bpref) list \<Rightarrow> (u64 \<times> bpref) list" where
  "sw_without_temp h entries = filter (\<lambda>kv. \<not> Temp (h (snd kv))) entries"

text \<open>No breakpoint of the table has its temp flag set.\<close>

definition no_temp :: "DebuggedProcess \<Rightarrow> bool" where
  "no_temp dbp = list_all (\<lambda>bp. \<not> Temp (objs dbp bp)) (stored dbp)"

section \<open>The installer and the dispatcher, from the spec\<close>

text \<open>
  Modelled from the spec: \<^verbatim>\<open>setBreakpoint(tid, addr)\<close> is not in the files at hand.
  Section 4.1: "attempts hardware first -- if a free slot exists and the OS supports
  it, assign the lowest free slot and arm the debug registers on thread_id. Otherwise
  read one byte at address, store it as original_byte, write the trap byte, and
  insert in the software map. Assigns the next id. Fails with AlreadyExists if an
  entry at address exists in either store." The new object gets the pointer of its
  id. The theorems below do not use this definition; the concrete environment does.
\<close>

definition trap_byte :: byte where
  "trap_byte = 0xCC"

fun free_slot :: "bpref option list \<Rightarrow> nat \<Rightarrow> nat option" where
  "free_slot [] i = None"
| "free_slot (None # cells) i = Some i"
| "free_slot (Some bp # cells) i = free_slot cells (Suc i)"

definition setBreakpoint_model :: "env \<Rightarrow> bool \<Rightarrow> DebuggedProcess \<Rightarrow> int \<Rightarrow> u64 \<Rightarrow>
    DebuggedProcess \<times> (error + bpref)" where
  "setBreakpoint_model E hw dbp tid addr =
     (case FindBreakpoint dbp addr of
        Some bp \<Rightarrow> (dbp, Inl (BreakPointExistsError addr))
      | None \<Rightarrow>
          (let n = breakpointIDCounter dbp + 1; p = nat n
           in case (if hw then free_slot (HWBreakPoints dbp) 0 else None) of
                Some i \<Rightarrow>
                  (dbp\<lparr>HWBreakPoints := (HWBreakPoints dbp)[i := Some p],
                       breakpointIDCounter := n,
                       objs := (objs dbp)
                         (p := \<lparr>ID = n, Addr = addr, OriginalData = [], Temp = False\<rparr>)\<rparr>,
                   Inr p)
              | None \<Rightarrow>
                  (case thread_readMemory E tid addr 1 (proc dbp) of
                     (orig, Some e) \<Rightarrow> (dbp, Inl e)
                   | (orig, None) \<Rightarrow>
                       (case writeMemory E tid addr [trap_byte] (proc dbp) of
                          (t, Some e) \<Rightarrow> (dbp\<lparr>proc := t\<rparr>, Inl e)
                        | (t, None) \<Rightarrow>
                            (dbp\<lparr>BreakPoints := BreakPoints dbp @ [(addr, p)],
                                 breakpointIDCounter := n,
                                 objs := (objs dbp)
                                   (p := \<lparr>ID = n, Addr = addr, OriginalData = orig, Temp = False\<rparr>),
                                 proc := t\<rparr>,
                             Inr p)))))"

text \<open>
  Modelled from the spec: \<^verbatim>\<open>trapWait\<close> is not in the files at hand. Section 2: it
  "blocks for any trace event from any OS thread, updates its status, and returns the
  thread that stopped along with the breakpoint (if any) it hit". The wait itself is
  the argument \<open>wait\<close>; the breakpoint is found by \<^verbatim>\<open>handleBreakpointOnThread\<close>.
\<close>

definition trapWait_model :: "env \<Rightarrow> (target \<Rightarrow> target \<times> (error + int)) \<Rightarrow> DebuggedProcess \<Rightarrow>
    DebuggedProcess \<times> (error + int)" where
  "trapWait_model E wait dbp =
     (case wait (proc dbp) of
        (t, Inl e) \<Rightarrow> (dbp\<lparr>proc := t\<rparr>, Inl e)
      | (t, Inr wpid) \<Rightarrow> handleBreakpointOnThread E (dbp\<lparr>proc := t\<rparr>) wpid)"

section \<open>A concrete process and environment\<close>

text \<open>
  The symbol table of a small binary: the function \<^verbatim>\<open>main.testnext\<close> of the fixture
  \<^verbatim>\<open>testnextprog.go\<close> and three functions of the runtime.
\<close>

definition funcs0 :: "Func list" where
  "funcs0 =
     [\<lparr>Name = ''main.testnext'', Entry = 0x1000, End = 0x1100\<rparr>,
      \<lparr>Name = ''runtime.getg'', Entry = 0x2000, End = 0x2010\<rparr>,
      \<lparr>Name = ''runtime.goexit'', Entry = 0x3000, End = 0x3010\<rparr>,
      \<lparr>Name = ''runtime.breakpoint'', Entry = 0x4000, End = 0x4010\<rparr>]"

definition LookupFunc0 :: "string \<Rightarrow> Func option" where
  "LookupFunc0 name = find (\<lambda>f. Name f = name) funcs0"

definition PCToFunc0 :: "u64 \<Rightarrow> Func option" where
  "PCToFunc0 pc = find (\<lambda>f. Entry f \<le> pc \<and> pc < End f) funcs0"

text \<open>
  The line table of \<^verbatim>\<open>main.testnext\<close>: one PC per line, sixteen bytes of code each.
  After line 24 comes line 26; line 26 is the \<^verbatim>\<open>if\<close> and leads to line 27 or line
  31; line 35 is the last statement of the function.
\<close>

definition lines0 :: "(int \<times> u64) list" where
  "lines0 = [(24, 0x1040), (26, 0x1050), (27, 0x1060), (31, 0x1070), (34, 0x1080), (35, 0x1090)]"

definition next0 :: "(int \<times> int list) list" where
  "next0 = [(24, [26]), (26, [27, 31]), (27, [34]), (31, [24]), (34, [35]), (35, [])]"

definition PCToLine0 :: "u64 \<Rightarrow> string \<times> int \<times> Func option" where
  "PCToLine0 pc =
     (case PCToFunc0 pc of
        None \<Rightarrow> ([], 0, None)
      | Some f \<Rightarrow>
          if Name f = ''main.testnext'' then
            (''/go/testnextprog.go'',
             (case find (\<lambda>la. snd la \<le> pc \<and> pc < snd la + 16) lines0 of
                Some la \<Rightarrow> fst la
              | None \<Rightarrow> 17),
             Some f)
          else (''/go/runtime/asm_amd64.s'', 1, Some f))"

definition FDEForPC0 :: "u64 \<Rightarrow> error + FrameDescriptionEntry" where
  "FDEForPC0 pc =
     (case PCToFunc0 pc of
        None \<Rightarrow> Inl (OSError ''could not find FDE for PC'')
      | Some f \<Rightarrow>
          Inr \<lparr>Cover = (\<lambda>a. Entry f \<le> a \<and> a < End f),
               ReturnAddressOffset = (\<lambda>a. 0x18),
               FrameOffset = (\<lambda>a. 0x20)\<rparr>)"

definition NextLines0 :: "string \<Rightarrow> int \<Rightarrow> error + int list" where
  "NextLines0 file line = (case map_of next0 line of Some ls \<Rightarrow> Inr ls | None \<Rightarrow> Inr [])"

definition AllPCsForFileLine0 :: "string \<Rightarrow> int \<Rightarrow> u64 list" where
  "AllPCsForFileLine0 file line = map snd (filter (\<lambda>la. fst la = line) lines0)"

text \<open>Two tasklets; \<^verbatim>\<open>runtime.allg\<close> is at 0x6000 and points to 0x6100.\<close>

definition g1 :: G where
  "g1 = \<lparr>Id = 1, G_PC = 0x1050, G_SP = 0x7000, GoPC = 0x1000,
         File = ''/go/testnextprog.go'', Line = 26, WaitReason = []\<rparr>"

definition g2 :: G where
  "g2 = \<lparr>Id = 2, G_PC = 0x5000, G_SP = 0x8000, GoPC = 0x5000,
         File = ''/go/testnextprog.go'', Line = 41, WaitReason = ''sleep''\<rparr>"

definition parseG0 :: "target \<Rightarrow> int \<Rightarrow> u64 \<Rightarrow> error + G" where
  "parseG0 t tid addr =
     (if addr = 0x6100 \<or> addr = 0x7008 then Inr g1
      else if addr = 0x6108 \<or> addr = 0x8008 then Inr g2
      else Inl (OSError ''could not read g''))"

text \<open>
  \<^verbatim>\<open>strconv.ParseUint(s, 0, 64)\<close> of the Go library: \<^verbatim>\<open>0x\<close> or \<^verbatim>\<open>0X\<close> starts a
  hexadecimal number, another leading \<^verbatim>\<open>0\<close> an octal one, anything else is decimal;
  a value of 2^64 = 18446744073709551616 or more is out of range. \<^verbatim>\<open>strconv.Atoi\<close> reads an optional sign and
  decimal digits.
\<close>

definition digit_val :: "char \<Rightarrow> int" where
  "digit_val c =
     (let n = (of_char c :: int)
      in if 48 \<le> n \<and> n \<le> 57 then n - 48
         else if 97 \<le> n \<and> n \<le> 122 then n - 97 + 10
         else if 65 \<le> n \<and> n \<le> 90 then n - 65 + 10
         else 36)"

fun parse_digits :: "int \<Rightarrow> int \<Rightarrow> string \<Rightarrow> int option" where
  "parse_digits base acc [] = Some acc"
| "parse_digits base acc (c # cs) =
     (if digit_val c < base then parse_digits base (acc * base + digit_val c) cs else None)"

definition ParseUint0 :: "string \<Rightarrow> error + u64" where
  "ParseUint0 s =
     (let r = (case s of
                 [] \<Rightarrow> None
               | c # cs \<Rightarrow>
                   if c = CHR ''0'' \<and> cs \<noteq> [] \<and> (hd cs = CHR ''x'' \<or> hd cs = CHR ''X'')
                   then (if tl cs = [] then None else parse_digits 16 0 (tl cs))
                   else if c = CHR ''0'' then parse_digits 8 0 s
                   else parse_digits 10 0 s)
      in case r of
           None \<Rightarrow> Inl (OSError ''strconv.ParseUint: invalid syntax'')
         | Some n \<Rightarrow>
             if n < 18446744073709551616 then Inr (word_of_int n)
             else Inl (OSError ''strconv.ParseUint: value out of range''))"

definition Atoi0 :: "string \<Rightarrow> error + int" where
  "Atoi0 s =
     (let neg = (s \<noteq> [] \<and> hd s = CHR ''-'');
          ds = (if s \<noteq> [] \<and> (hd s = CHR ''-'' \<or> hd s = CHR ''+'') then tl s else s)
      in case (if ds = [] then None else parse_digits 10 0 ds) of
           None \<Rightarrow> Inl (OSError ''strconv.Atoi: invalid syntax'')
         | Some n \<Rightarrow> Inr (if neg then - n else n))"

text \<open>
  The kernel of the concrete process: every instruction is one byte long, a thread
  that runs goes straight on until it executes a trap byte and stops behind it, and
  thread 1 is the one that \<open>wait0\<close> reports.
\<close>

fun run_to_trap :: "nat \<Rightarrow> (u64 \<Rightarrow> byte) \<Rightarrow> u64 \<Rightarrow> u64" where
  "run_to_trap 0 m pc = pc"
| "run_to_trap (Suc n) m pc = (if m pc = trap_byte then pc + 1 else run_to_trap n m (pc + 1))"

definition wait0 :: "target \<Rightarrow> target \<times> (error + int)" where
  "wait0 t =
     (t\<lparr>regs := (regs t)(1 := (regs t 1)\<lparr>PC := run_to_trap 64 (mem t) (PC (regs t 1))\<rparr>)\<rparr>,
      Inr 1)"

definition singleStep0 :: "int \<Rightarrow> target \<Rightarrow> target \<times> error option" where
  "singleStep0 tid t =
     (t\<lparr>regs := (regs t)(tid := (regs t tid)\<lparr>PC := PC (regs t tid) + 1\<rparr>)\<rparr>, None)"

definition saveRegisters0 :: "int \<Rightarrow> target \<Rightarrow> target \<times> error option" where
  "saveRegisters0 tid t = (t\<lparr>saved := (saved t)(tid := regs t tid)\<rparr>, None)"

definition restoreRegisters0 :: "int \<Rightarrow> target \<Rightarrow> target \<times> error option" where
  "restoreRegisters0 tid t = (t\<lparr>regs := (regs t)(tid := saved t tid)\<rparr>, None)"

text \<open>
  The primitives of the concrete environment never fail, and thread 3 is the one
  asleep in a system call. \<open>Eprim\<close> has placeholders for the installer and the
  dispatcher, which \<open>E0\<close> fills in: software breakpoints only.
\<close>

definition Eprim :: env where
  "Eprim =
     \<lparr>getregs_err = (\<lambda>t tid. None),
      setregs_err = (\<lambda>t tid pc. None),
      peek_err = (\<lambda>t tid addr n. None),
      poke_err = (\<lambda>t tid addr bs. None),
      singleStep = singleStep0,
      resume = (\<lambda>tid t. (t, None)),
      blocked = (\<lambda>t tid. tid = 3),
      saveRegisters = saveRegisters0,
      restoreRegisters = restoreRegisters0,
      clearHardwareBreakpoint = (\<lambda>i tid t. None),
      setBreakpoint = (\<lambda>dbp tid addr. (dbp, Inl (OSError ''not supported''))),
      trapWait = (\<lambda>dbp. (dbp, Inl (OSError ''not supported''))),
      Halt = (\<lambda>dbp. (dbp, None)),
      LookupFunc = LookupFunc0,
      PCToFunc = PCToFunc0,
      PCToLine = PCToLine0,
      LineToPC = (\<lambda>file line. case map_of lines0 line of
                                  Some pc \<Rightarrow> Inr pc
                                | None \<Rightarrow> Inl (OSError ''no code at this line'')),
      FDEForPC = FDEForPC0,
      NextLines = NextLines0,
      AllPCsForFileLine = AllPCsForFileLine0,
      allglenval = (\<lambda>t. Inr 2),
      addressFor = (\<lambda>name. Inr 0x6000),
      parseG = parseG0,
      Abs = (\<lambda>f. Inr (if f \<noteq> [] \<and> hd f = CHR ''/'' then f else ''/go/'' @ f)),
      Atoi = Atoi0,
      ParseUint = ParseUint0,
      ptrsize = 8\<rparr>"

definition E0 :: env where
  "E0 = Eprim\<lparr>setBreakpoint := setBreakpoint_model Eprim False,
               trapWait := trapWait_model Eprim wait0\<rparr>"

text \<open>
  The memory of the concrete process: zero everywhere, except the pointer 0x6100 at
  \<^verbatim>\<open>runtime.allg\<close> and the return address 0x3004, inside \<^verbatim>\<open>runtime.goexit\<close>, in the
  frame of thread 1.
\<close>

definition mem0 :: "u64 \<Rightarrow> byte" where
  "mem0 = (\<lambda>a. 0)(0x6001 := 0x61, 0x7018 := 0x04, 0x7019 := 0x30)"

definition regs0 :: "int \<Rightarrow> Registers" where
  "regs0 = (\<lambda>tid. \<lparr>PC = 0x5000, SP = 0x8000\<rparr>)(1 := \<lparr>PC = 0x1050, SP = 0x7000\<rparr>)"

definition target0 :: target where
  "target0 = \<lparr>mem = mem0, regs = regs0, saved = regs0, kernel = 0\<rparr>"

text \<open>A session on it with an empty breakpoint table, thread 1 in focus.\<close>

definition dbp0 :: DebuggedProcess where
  "dbp0 =
     \<lparr>Pid = 1, HWBreakPoints = [None, None, None, None], BreakPoints = [],
      Threads = [1, 3], CurrentBreakpoint = None, CurrentThread = 1,
      breakpointIDCounter = 0, running = False, halt = False, exited = False,
      objs = (\<lambda>p. \<lparr>ID = 0, Addr = 0, OriginalData = [], Temp = False\<rparr>),
      proc = target0\<rparr>"

text \<open>The frame entry of \<^verbatim>\<open>main.testnext\<close>, as \<open>FDEForPC0\<close> gives it.\<close>

definition fde0 :: FrameDescriptionEntry where
  "fde0 = \<lparr>Cover = (\<lambda>a. 0x1000 \<le> a \<and> a < 0x1100),
            ReturnAddressOffset = (\<lambda>a. 0x18),
            FrameOffset = (\<lambda>a. 0x20)\<rparr>"

text \<open>
  A session with two breakpoints the user has set: number 1 in hardware cell 0, at
  line 26; number 2 in the software map, at line 34, its trap byte in memory.
\<close>

definition dbp_user :: DebuggedProcess where
  "dbp_user =
     dbp0\<lparr>HWBreakPoints := [Some 1, None, None, None],
          BreakPoints := [(0x1080, 2)],
          breakpointIDCounter := 2,
          objs := (objs dbp0)
            (1 := \<lparr>ID = 1, Addr = 0x1050, OriginalData = [], Temp = False\<rparr>,
             2 := \<lparr>ID = 2, Addr = 0x1080, OriginalData = [0], Temp = False\<rparr>),
          proc := target0\<lparr>mem := mem0(0x1080 := trap_byte)\<rparr>\<rparr>"

text \<open>
  A session whose thread 1 has just run into the software breakpoint at line 26, a
  temp one: the PC is one past the trap byte.
\<close>

definition dbp_at_bp :: DebuggedProcess where
  "dbp_at_bp =
     dbp0\<lparr>BreakPoints := [(0x1050, 1)],
          breakpointIDCounter := 1,
          objs := (objs dbp0)
            (1 := \<lparr>ID = 1, Addr = 0x1050, OriginalData = [0], Temp = True\<rparr>),
          proc := target0\<lparr>mem := mem0(0x1050 := trap_byte),
                          regs := regs0(1 := \<lparr>PC = 0x1051, SP = 0x7000\<rparr>)\<rparr>\<rparr>"

text \<open>
  A session with the software breakpoint of the user at line 34 only, thread 1 at
  line 26 and thread 3 asleep.
\<close>

definition dbp_line26 :: DebuggedProcess where
  "dbp_line26 =
     dbp0\<lparr>BreakPoints := [(0x1080, 1)],
          breakpointIDCounter := 1,
          objs := (objs dbp0)
            (1 := \<lparr>ID = 1, Addr = 0x1080, OriginalData = [0], Temp = False\<rparr>),
          proc := target0\<lparr>mem := mem0(0x1080 := trap_byte)\<rparr>\<rparr>"

text \<open>
  A session whose thread 1 stands at line 35, the last statement of
  \<^verbatim>\<open>main.testnext\<close>, with the return address inside \<^verbatim>\<open>runtime.goexit\<close>; thread 2
  is a second thread running Go code.
\<close>

definition dbp_tail :: DebuggedProcess where
  "dbp_tail =
     dbp0\<lparr>Threads := [1, 2],
          proc := target0\<lparr>regs := regs0(1 := \<lparr>PC = 0x1090, SP = 0x7000\<rparr>)\<rparr>\<rparr>"

text \<open>
  A session whose thread 1 is about to execute the trap instruction inside
  \<^verbatim>\<open>runtime.breakpoint\<close>, at 0x4004.
\<close>

definition dbp_rtbp :: DebuggedProcess where
  "dbp_rtbp =
     dbp0\<lparr>proc := target0\<lparr>mem := mem0(0x4004 := trap_byte),
                          regs := regs0(1 := \<lparr>PC = 0x4000, SP = 0x7000\<rparr>)\<rparr>\<rparr>"

text \<open>Environments in which one thing goes wrong.\<close>

definition E_disarm_fails :: env where
  "E_disarm_fails =
     E0\<lparr>clearHardwareBreakpoint := (\<lambda>i tid t. Some (OSError ''ptrace: no such process''))\<rparr>"

definition E_no_getg :: env where
  "E_no_getg =
     E0\<lparr>LookupFunc := (\<lambda>name. if name = ''runtime.getg'' then None else LookupFunc0 name)\<rparr>"

definition E_step_fails :: env where
  "E_step_fails =
     E0\<lparr>singleStep := (\<lambda>tid t. (t, Some (OSError ''ptrace: no such process'')))\<rparr>"

definition E_restore_fails :: env where
  "E_restore_fails =
     E0\<lparr>poke_err := (\<lambda>t tid addr bs. if addr = 0x1070
                        then Some (OSError ''ptrace: input/output error'') else None)\<rparr>"

definition E_break_fails :: env where
  "E_break_fails =
     E0\<lparr>setBreakpoint := (\<lambda>dbp tid addr. (dbp, Inl (OSError ''ptrace: input/output error'')))\<rparr>"

definition E_read_fails :: env where
  "E_read_fails =
     E0\<lparr>peek_err := (\<lambda>t tid addr n. Some (OSError ''ptrace: input/output error''))\<rparr>"








text \<open>
  \<^verbatim>\<open>next\<close> from line 26: the session after the first \<^verbatim>\<open>curG\<close>, the session when the
  body of \<^verbatim>\<open>next\<close> is left, and the session after the deferred clean-up.
\<close>

definition line26_started :: DebuggedProcess where
  "line26_started = fst (curG E0 dbp_line26 1)"

definition line26_left :: DebuggedProcess where
  "line26_left = fst (the (next_body 3 E0 line26_started g1))"

definition line26_cleaned :: DebuggedProcess where
  "line26_cleaned = fst (clearTempBreakpoints E0 line26_left)"

text \<open>The trap inside \<^verbatim>\<open>runtime.breakpoint\<close>: the session after \<^verbatim>\<open>trapWait\<close>.\<close>

definition rtbp_trapped :: DebuggedProcess where
  "rtbp_trapped = fst (trapWait E0 dbp_rtbp)"

section \<open>Properties\<close>

subsection \<open>The breakpoint table\<close>

lemma notin_image_ball: "y \<notin> f ` A \<Longrightarrow> \<forall>x \<in> A. f x \<noteq> y"
  by auto

lemma hw_refs_append: "hw_refs (xs @ ys) = hw_refs xs @ hw_refs ys"
  by (simp add: hw_refs_def)

lemma hw_refs_Cons_Some: "hw_refs (Some bp # cells) = bp # hw_refs cells"
  by (simp add: hw_refs_def)

lemma hw_refs_Cons_None: "hw_refs (None # cells) = hw_refs cells"
  by (simp add: hw_refs_def)

lemma hw_refs_Nil: "hw_refs [] = []"
  by (simp add: hw_refs_def)

lemma hw_at_None_iff:
  "hw_at h addr i cells = None \<longleftrightarrow> (\<forall>bp \<in> set (hw_refs cells). Addr (h bp) \<noteq> addr)"
  by (induction h addr i cells rule: hw_at.induct) (auto simp: hw_refs_def)

lemma hw_at_split:
  "hw_at h addr i cells = Some (j, bp) \<Longrightarrow>
     \<exists>pre post. cells = pre @ Some bp # post \<and> j = i + length pre \<and>
       (\<forall>b \<in> set (hw_refs pre). Addr (h b) \<noteq> addr) \<and> Addr (h bp) = addr"
proof (induction h addr i cells rule: hw_at.induct)
  case (1 h addr i)
  then show ?case by simp
next
  case (2 h addr i cells)
  then obtain pre post where "cells = pre @ Some bp # post" "j = Suc i + length pre"
      "\<forall>b \<in> set (hw_refs pre). Addr (h b) \<noteq> addr" "Addr (h bp) = addr"
    by auto
  then have "None # cells = (None # pre) @ Some bp # post \<and> j = i + length (None # pre) \<and>
      (\<forall>b \<in> set (hw_refs (None # pre)). Addr (h b) \<noteq> addr) \<and> Addr (h bp) = addr"
    by (simp add: hw_refs_def)
  then show ?case by blast
next
  case (3 h addr i b cells)
  show ?case
  proof (cases "Addr (h b) = addr")
    case True
    with 3 have "Some b # cells = [] @ Some bp # cells \<and> j = i + length ([] :: bpref option list) \<and>
      (\<forall>b \<in> set (hw_refs []). Addr (h b) \<noteq> addr) \<and> Addr (h bp) = addr"
      by (simp add: hw_refs_def)
    then show ?thesis by blast
  next
    case False
    with 3 obtain pre post where "cells = pre @ Some bp # post" "j = Suc i + length pre"
      "\<forall>b \<in> set (hw_refs pre). Addr (h b) \<noteq> addr" "Addr (h bp) = addr"
      by auto
    with False have "Some b # cells = (Some b # pre) @ Some bp # post \<and> j = i + length (Some b # pre) \<and>
      (\<forall>b \<in> set (hw_refs (Some b # pre)). Addr (h b) \<noteq> addr) \<and> Addr (h bp) = addr"
      by (simp add: hw_refs_def)
    then show ?thesis by blast
  qed
qed

lemma hw_at_append:
  "\<forall>b \<in> set (hw_refs pre). Addr (h b) \<noteq> addr \<Longrightarrow>
     hw_at h addr i (pre @ cells) = hw_at h addr (i + length pre) cells"
proof (induction pre arbitrary: i)
  case Nil
  then show ?case by simp
next
  case (Cons c pre)
  then show ?case by (cases c) (simp_all add: hw_refs_def)
qed

lemma hw_temp_at_None_iff:
  "hw_temp_at h pc cells = None \<longleftrightarrow>
     (\<forall>bp \<in> set (hw_refs cells). Addr (h bp) = pc \<longrightarrow> \<not> Temp (h bp))"
  by (induction h pc cells rule: hw_temp_at.induct) (auto simp: hw_refs_def)

lemma map_of_keyed_None:
  assumes "list_all (\<lambda>kv. Addr (h (snd kv)) = fst kv) entries"
      and "addr \<notin> (\<lambda>bp. Addr (h bp)) ` snd ` set entries"
  shows "map_of entries addr = None"
proof (rule ccontr)
  assume "map_of entries addr \<noteq> None"
  then obtain bp where "map_of entries addr = Some bp" by auto
  then have m: "(addr, bp) \<in> set entries" by (rule map_of_SomeD)
  with assms(1) have "Addr (h bp) = addr" by (auto simp: list_all_iff)
  with m assms(2) show False by force
qed





lemma pair_fstI: "snd x = b \<Longrightarrow> x = (fst x, b)"
  by (cases x) simp

lemma Some_fst_theI: "map_option snd x = Some b \<Longrightarrow> x = Some (fst (the x), b)"
  by (cases x) auto

subsection \<open>Clearing a hardware breakpoint is not atomic\<close>

text \<open>
  C9. \<^verbatim>\<open>clearBreakpoint\<close> on the hardware path: when the loop over the cells finds
  \<open>addr\<close> in cell \<open>i\<close> and disarming the debug register fails with \<open>e\<close>, the call
  returns \<open>e\<close>, and the session it leaves behind has cell \<open>i\<close> set to nil, the debug
  register still armed. If the table held at most one breakpoint per address and
  the map was keyed by address, \<^verbatim>\<open>FindBreakpoint(addr)\<close> finds nothing any more.
\<close>

theorem clearBreakpoint_hw_disarm_fails:
  assumes found: "hw_at (objs dbp) addr 0 (HWBreakPoints dbp) = Some (i, bp)"
      and fails: "clearHardwareBreakpoint E i tid (proc dbp) = Some e"
  shows "clearBreakpoint E dbp tid addr =
           (dbp\<lparr>HWBreakPoints := (HWBreakPoints dbp)[i := None]\<rparr>, Inl e) \<and>
         (HWBreakPoints dbp)[i := None] ! i = None \<and>
         (unique_addrs dbp \<and> keyed_by_addr dbp \<longrightarrow>
            FindBreakpoint (dbp\<lparr>HWBreakPoints := (HWBreakPoints dbp)[i := None]\<rparr>) addr = None)"
proof -
  from hw_at_split [OF found] obtain pre post where
    cells: "HWBreakPoints dbp = pre @ Some bp # post" and i: "i = length pre"
    and pre: "\<forall>b \<in> set (hw_refs pre). Addr (objs dbp b) \<noteq> addr"
    and bp: "Addr (objs dbp bp) = addr"
    by auto
  have upd: "(HWBreakPoints dbp)[i := None] = pre @ None # post"
    by (simp add: cells i)
  have 1: "clearBreakpoint E dbp tid addr =
      (dbp\<lparr>HWBreakPoints := (HWBreakPoints dbp)[i := None]\<rparr>, Inl e)"
    using found fails by (simp add: clearBreakpoint_def Let_def)
  have 2: "(HWBreakPoints dbp)[i := None] ! i = None"
    unfolding upd by (simp add: i)
  have 3: "FindBreakpoint (dbp\<lparr>HWBreakPoints := (HWBreakPoints dbp)[i := None]\<rparr>) addr = None"
    if u: "unique_addrs dbp" and k: "keyed_by_addr dbp"
  proof -
    from u have d: "distinct (map (\<lambda>b. Addr (objs dbp b))
        (hw_refs pre @ bp # hw_refs post @ map snd (BreakPoints dbp)))"
      by (simp add: unique_addrs_def stored_def cells hw_refs_append hw_refs_Cons_Some)
    then have "addr \<notin> (\<lambda>b. Addr (objs dbp b)) ` set (hw_refs post)"
      and sw: "addr \<notin> (\<lambda>b. Addr (objs dbp b)) ` snd ` set (BreakPoints dbp)"
      by (simp_all add: bp image_image)
    then have post: "\<forall>b \<in> set (hw_refs post). Addr (objs dbp b) \<noteq> addr"
      by blast
    have "hw_at (objs dbp) addr 0 (pre @ None # post) = None"
      using pre post by (auto simp: hw_at_None_iff hw_refs_append hw_refs_Cons_None)
    moreover have "map_of (BreakPoints dbp) addr = None"
      using k sw unfolding keyed_by_addr_def by (rule map_of_keyed_None)
    ultimately show ?thesis by (simp add: FindBreakpoint_def upd)
  qed
  from 1 2 3 show ?thesis by blast
qed

text \<open>
  In the session \<open>dbp_user\<close>, whose breakpoint 1 is in hardware cell 0 at 0x1050, with
  a kernel that refuses to disarm: the call fails, all four cells are nil afterwards
  and the breakpoint is not found any more.
\<close>

theorem clearBreakpoint_hw_disarm_fails_witness:
  "FindBreakpoint dbp_user 0x1050 = Some 1 \<and>
   snd (clearBreakpoint E_disarm_fails dbp_user 1 0x1050) = Inl (OSError ''ptrace: no such process'') \<and>
   HWBreakPoints (fst (clearBreakpoint E_disarm_fails dbp_user 1 0x1050)) = [None, None, None, None] \<and>
   FindBreakpoint (fst (clearBreakpoint E_disarm_fails dbp_user 1 0x1050)) 0x1050 = None"
proof -
  have found: "hw_at (objs dbp_user) 0x1050 0 (HWBreakPoints dbp_user) = Some (0, 1)"
    by code_simp
  have fails: "clearHardwareBreakpoint E_disarm_fails 0 1 (proc dbp_user) =
      Some (OSError ''ptrace: no such process'')"
    by (simp add: E_disarm_fails_def)
  have wf: "unique_addrs dbp_user \<and> keyed_by_addr dbp_user"
    by code_simp
  have cells: "(HWBreakPoints dbp_user)[0 := None] = [None, None, None, None]"
    by code_simp
  have before: "FindBreakpoint dbp_user 0x1050 = Some 1"
    by code_simp
  from clearBreakpoint_hw_disarm_fails [OF found fails] wf cells before
  show ?thesis by simp
qed

subsection \<open>clearTempBreakpoint leaves other breakpoints alone\<close>

text \<open>
  C10. When every breakpoint at \<open>pc\<close>, in the hardware cells and in the software map,
  has its temp flag unset (in particular when there is none at \<open>pc\<close>),
  \<^verbatim>\<open>clearTempBreakpoint(pc)\<close> returns no error and the session is the one it was given:
  the same table, the same memory, the same registers.
\<close>

theorem clearTempBreakpoint_noop:
  assumes hw: "\<forall>bp \<in> set (hw_refs (HWBreakPoints dbp)). Addr (objs dbp bp) = pc \<longrightarrow> \<not> Temp (objs dbp bp)"
      and sw: "\<forall>bp. map_of (BreakPoints dbp) pc = Some bp \<longrightarrow> \<not> Temp (objs dbp bp)"
  shows "clearTempBreakpoint E dbp tid pc = (dbp, None)"
proof -
  from hw have "hw_temp_at (objs dbp) pc (HWBreakPoints dbp) = None"
    by (simp add: hw_temp_at_None_iff)
  with sw show ?thesis
    by (simp add: clearTempBreakpoint_def split: option.split)
qed

text \<open>
  In the session \<open>dbp_user\<close>: at 0x1050 there is the breakpoint of the user, not temp,
  and at 0x1060 there is none; both calls give the session back.
\<close>

theorem clearTempBreakpoint_noop_witness:
  "FindBreakpoint dbp_user 0x1050 = Some 1 \<and> \<not> Temp (objs dbp_user 1) \<and>
   clearTempBreakpoint E0 dbp_user 1 0x1050 = (dbp_user, None) \<and>
   FindBreakpoint dbp_user 0x1060 = None \<and>
   clearTempBreakpoint E0 dbp_user 1 0x1060 = (dbp_user, None)"
proof -
  have hw: "\<forall>bp \<in> set (hw_refs (HWBreakPoints dbp_user)).
      Addr (objs dbp_user bp) = pc \<longrightarrow> \<not> Temp (objs dbp_user bp)" for pc
    by (simp add: dbp_user_def dbp0_def hw_refs_def)
  have sw: "\<forall>bp. map_of (BreakPoints dbp_user) pc = Some bp \<longrightarrow> \<not> Temp (objs dbp_user bp)" for pc
    by (simp add: dbp_user_def dbp0_def)
  have found: "FindBreakpoint dbp_user 0x1050 = Some 1 \<and> \<not> Temp (objs dbp_user 1) \<and>
      FindBreakpoint dbp_user 0x1060 = None"
    by code_simp
  from clearTempBreakpoint_noop [where dbp = dbp_user and pc = "0x1050" and E = E0 and tid = 1, OF hw sw]
       clearTempBreakpoint_noop [where dbp = dbp_user and pc = "0x1060" and E = E0 and tid = 1, OF hw sw]
       found
  show ?thesis by simp
qed

subsection \<open>FindLocation\<close>

lemma hw_by_id_Some:
  "hw_by_id h n cells = Some bp \<Longrightarrow> bp \<in> set (hw_refs cells) \<and> word_of_int (ID (h bp)) = n"
  by (induction h n cells rule: hw_by_id.induct) (auto simp: hw_refs_def split: if_splits)

lemma hw_by_id_None:
  "hw_by_id h n cells = None \<Longrightarrow> \<forall>bp \<in> set (hw_refs cells). word_of_int (ID (h bp)) \<noteq> n"
  by (induction h n cells rule: hw_by_id.induct) (auto simp: hw_refs_def split: if_splits)

lemma sw_by_id_Some:
  "sw_by_id h n entries = Some bp \<Longrightarrow> bp \<in> snd ` set entries \<and> word_of_int (ID (h bp)) = n"
  by (induction h n entries rule: sw_by_id.induct) (auto split: if_splits)

lemma sw_by_id_None:
  "sw_by_id h n entries = None \<Longrightarrow> \<forall>bp \<in> snd ` set entries. word_of_int (ID (h bp)) \<noteq> n"
  by (induction h n entries rule: sw_by_id.induct) (auto split: if_splits)

text \<open>
  C8. For a string without a colon: if it names a function of the symbol table,
  \<^verbatim>\<open>FindLocation\<close> returns the entry of that function. If it names none and
  \<^verbatim>\<open>strconv.ParseUint\<close> reads it as the number \<open>n\<close>, then, when some breakpoint of
  either store has the id \<open>n\<close> (the comparison of the source,
  \<^verbatim>\<open>uint64(bp.ID) == id\<close>), the result is the address of a breakpoint of the table with
  that id, and otherwise the result is \<open>n\<close> itself.
\<close>

theorem FindLocation_function_or_id:
  assumes nocolon: "CHR '':'' \<notin> set str"
  shows "(\<forall>fn. LookupFunc E str = Some fn \<longrightarrow> FindLocation E dbp str = Inr (Entry fn)) \<and>
         (\<forall>n. LookupFunc E str = None \<longrightarrow> ParseUint E str = Inr n \<longrightarrow>
            (if \<exists>bp \<in> set (stored dbp). word_of_int (ID (objs dbp bp)) = n
             then \<exists>bp \<in> set (stored dbp). word_of_int (ID (objs dbp bp)) = n \<and>
                    FindLocation E dbp str = Inr (Addr (objs dbp bp))
             else FindLocation E dbp str = Inr n))"
proof (intro conjI allI impI)
  fix fn assume "LookupFunc E str = Some fn"
  with nocolon show "FindLocation E dbp str = Inr (Entry fn)"
    by (simp add: FindLocation_def)
next
  fix n assume nofn: "LookupFunc E str = None" and parsed: "ParseUint E str = Inr n"
  let ?h = "objs dbp"
  show "if \<exists>bp \<in> set (stored dbp). word_of_int (ID (?h bp)) = n
        then \<exists>bp \<in> set (stored dbp). word_of_int (ID (?h bp)) = n \<and>
               FindLocation E dbp str = Inr (Addr (?h bp))
        else FindLocation E dbp str = Inr n"
  proof (cases "hw_by_id ?h n (HWBreakPoints dbp)")
    case (Some bp)
    then have "bp \<in> set (stored dbp)" "word_of_int (ID (?h bp)) = n"
      using hw_by_id_Some [OF Some] by (simp_all add: stored_def)
    moreover have "FindLocation E dbp str = Inr (Addr (?h bp))"
      using nocolon nofn parsed Some by (simp add: FindLocation_def)
    ultimately show ?thesis by auto
  next
    case None
    note hwNone = this
    show ?thesis
    proof (cases "sw_by_id ?h n (BreakPoints dbp)")
      case (Some bp)
      then have "bp \<in> set (stored dbp)" "word_of_int (ID (?h bp)) = n"
        using sw_by_id_Some [OF Some] by (simp_all add: stored_def)
      moreover have "FindLocation E dbp str = Inr (Addr (?h bp))"
        using nocolon nofn parsed hwNone Some by (simp add: FindLocation_def)
      ultimately show ?thesis by auto
    next
      case None
      have "\<forall>bp \<in> set (stored dbp). word_of_int (ID (?h bp)) \<noteq> n"
        using hw_by_id_None [OF hwNone] sw_by_id_None [OF None] by (auto simp: stored_def)
      moreover have "FindLocation E dbp str = Inr n"
        using nocolon nofn parsed hwNone None by (simp add: FindLocation_def)
      ultimately show ?thesis by auto
    qed
  qed
qed

text \<open>
  In the session \<open>dbp_user\<close>, with breakpoint 1 at 0x1050 and breakpoint 2 at 0x1080:
  a function name gives its entry; "2" and "0x1" are ids of breakpoints and give
  their addresses; "010" is octal 8 and "4242" is decimal, no breakpoint has these
  ids, and the numbers themselves come back.
\<close>

theorem FindLocation_function_or_id_witness:
  "FindLocation E0 dbp_user ''main.testnext'' = Inr 0x1000 \<and>
   FindLocation E0 dbp_user ''2'' = Inr 0x1080 \<and>
   FindLocation E0 dbp_user ''0x1'' = Inr 0x1050 \<and>
   FindLocation E0 dbp_user ''010'' = Inr 8 \<and>
   FindLocation E0 dbp_user ''4242'' = Inr 4242"
proof -
  have tab: "stored dbp_user = [1, 2]"
    "ID (objs dbp_user 1) = 1" "ID (objs dbp_user 2) = 2"
    "Addr (objs dbp_user 1) = 0x1050" "Addr (objs dbp_user 2) = 0x1080"
    by code_simp+
  have look: "LookupFunc E0 ''main.testnext'' =
      Some \<lparr>Name = ''main.testnext'', Entry = 0x1000, End = 0x1100\<rparr>"
    "LookupFunc E0 ''2'' = None" "LookupFunc E0 ''0x1'' = None"
    "LookupFunc E0 ''010'' = None" "LookupFunc E0 ''4242'' = None"
    by code_simp+
  have parse: "ParseUint E0 ''2'' = Inr 2" "ParseUint E0 ''0x1'' = Inr 1"
    "ParseUint E0 ''010'' = Inr 8" "ParseUint E0 ''4242'' = Inr 4242"
    by code_simp+
  note t = FindLocation_function_or_id [where E = E0 and dbp = dbp_user]
  have "FindLocation E0 dbp_user ''main.testnext'' = Inr 0x1000"
    using t [of "''main.testnext''"] look by simp
  moreover have "FindLocation E0 dbp_user ''2'' = Inr 0x1080"
    using t [of "''2''"] look parse tab by simp
  moreover have "FindLocation E0 dbp_user ''0x1'' = Inr 0x1050"
    using t [of "''0x1''"] look parse tab by simp
  moreover have "FindLocation E0 dbp_user ''010'' = Inr 8"
    using t [of "''010''"] look parse tab by simp
  moreover have "FindLocation E0 dbp_user ''4242'' = Inr 4242"
    using t [of "''4242''"] look parse tab by simp
  ultimately show ?thesis by simp
qed

subsection \<open>Continue steps over a breakpoint\<close>




subsection \<open>resume classifies the trap\<close>

text \<open>
  C7, as amended. After \<^verbatim>\<open>trapWait\<close> has returned a thread, the focus has moved to
  it and its PC has been read: if the current breakpoint is set and not temp, the
  result of \<^verbatim>\<open>resume\<close> is the result of \<^verbatim>\<open>Halt\<close>; else if the PC lies in
  \<^verbatim>\<open>runtime.breakpoint\<close>, the thread is stepped twice and the result is the result of
  \<^verbatim>\<open>Halt\<close> after that, unless one of the two steps fails, whose error is then the
  result; in every other case the result is the error "unrecognized breakpoint" with
  the PC.
\<close>

theorem resume_classifies_trap:
  assumes trap: "trapWait E dbp = (dbp1, Inr thread)"
      and focus: "dbp2 = (if CurrentThread dbp1 \<noteq> thread then fst (SwitchThread dbp1 thread) else dbp1)"
      and pc: "thread_CurrentPC E dbp2 thread = Inr pc"
  shows "dbp_resume E dbp =
     (if \<exists>cb. CurrentBreakpoint dbp2 = Some cb \<and> \<not> Temp (objs dbp2 cb) then Halt E dbp2
      else if \<exists>fn. PCToFunc E pc = Some fn \<and> Name fn = ''runtime.breakpoint'' then
        (case thread_Step E dbp2 thread of
           (dbp3, Some e) \<Rightarrow> (dbp3, Some e)
         | (dbp3, None) \<Rightarrow>
             (case thread_Step E dbp3 thread of
                (dbp4, Some e) \<Rightarrow> (dbp4, Some e)
              | (dbp4, None) \<Rightarrow> Halt E dbp4))
      else (dbp2, Some (Errorf ''unrecognized breakpoint %#v'' [AU64 pc])))"
proof -
  have two: "(case resume_steps 2 E d thread of
                (d3, Some e) \<Rightarrow> (d3, Some e)
              | (d3, None) \<Rightarrow> Halt E d3) =
      (case thread_Step E d thread of
         (d3, Some e) \<Rightarrow> (d3, Some e)
       | (d3, None) \<Rightarrow>
           (case thread_Step E d3 thread of
              (d4, Some e) \<Rightarrow> (d4, Some e)
            | (d4, None) \<Rightarrow> Halt E d4))" for d
    by (simp add: numeral_2_eq_2 split: prod.splits option.splits)
  have cb: "(case CurrentBreakpoint dbp2 of Some cb \<Rightarrow> \<not> Temp (objs dbp2 cb) | None \<Rightarrow> False) =
      (\<exists>cb. CurrentBreakpoint dbp2 = Some cb \<and> \<not> Temp (objs dbp2 cb))"
    by (simp split: option.splits)
  have fn: "(case PCToFunc E pc of Some fn \<Rightarrow> Name fn = ''runtime.breakpoint'' | None \<Rightarrow> False) =
      (\<exists>fn. PCToFunc E pc = Some fn \<and> Name fn = ''runtime.breakpoint'')"
    by (simp split: option.splits)
  have "dbp_resume E dbp =
     (if (case CurrentBreakpoint dbp2 of Some cb \<Rightarrow> \<not> Temp (objs dbp2 cb) | None \<Rightarrow> False)
      then Halt E dbp2
      else if (case PCToFunc E pc of Some fn \<Rightarrow> Name fn = ''runtime.breakpoint'' | None \<Rightarrow> False)
      then (case resume_steps 2 E dbp2 thread of
              (dbp3, Some e) \<Rightarrow> (dbp3, Some e)
            | (dbp3, None) \<Rightarrow> Halt E dbp3)
      else (dbp2, Some (Errorf ''unrecognized breakpoint %#v'' [AU64 pc])))"
    using trap pc unfolding focus dbp_resume_def by (simp add: Let_def)
  then show ?thesis
    by (simp only: cb fn two)
qed

text \<open>
  In the session \<open>dbp_rtbp\<close> the thread stops behind the trap instruction of
  \<^verbatim>\<open>runtime.breakpoint\<close>, at 0x4005, with no current breakpoint: two steps take it to
  0x4007 and \<^verbatim>\<open>resume\<close> returns no error.
\<close>

theorem resume_classifies_trap_witness:
  "thread_CurrentPC E0 rtbp_trapped 1 = Inr 0x4005 \<and>
   CurrentBreakpoint rtbp_trapped = None \<and>
   map_option Name (PCToFunc E0 0x4005) = Some ''runtime.breakpoint'' \<and>
   snd (dbp_resume E0 dbp_rtbp) = None \<and>
   PC (regs (proc (fst (dbp_resume E0 dbp_rtbp))) 1) = 0x4007"
proof -
  let ?steps = "case thread_Step E0 rtbp_trapped 1 of
      (dbp3, Some e) \<Rightarrow> (dbp3, Some e)
    | (dbp3, None) \<Rightarrow>
        (case thread_Step E0 dbp3 1 of
           (dbp4, Some e) \<Rightarrow> (dbp4, Some e)
         | (dbp4, None) \<Rightarrow> Halt E0 dbp4)"
  have trap: "trapWait E0 dbp_rtbp = (rtbp_trapped, Inr 1)"
    unfolding rtbp_trapped_def by (rule pair_fstI) code_simp
  have cur: "CurrentThread rtbp_trapped = 1" by code_simp
  have focus: "rtbp_trapped =
      (if CurrentThread rtbp_trapped \<noteq> 1 then fst (SwitchThread rtbp_trapped 1) else rtbp_trapped)"
    by (simp add: cur)
  have pc: "thread_CurrentPC E0 rtbp_trapped 1 = Inr 0x4005" by code_simp
  have nobp: "CurrentBreakpoint rtbp_trapped = None" by code_simp
  have fn: "PCToFunc E0 0x4005 =
      Some \<lparr>Name = ''runtime.breakpoint'', Entry = 0x4000, End = 0x4010\<rparr>"
    by code_simp
  have eq: "dbp_resume E0 dbp_rtbp = ?steps"
    using resume_classifies_trap [OF trap focus pc] nobp fn by simp
  have after: "snd ?steps = None \<and> PC (regs (proc (fst ?steps)) 1) = 0x4007"
    by code_simp
  from pc nobp fn after show ?thesis
    by (simp only: eq) simp
qed

text \<open>
  C7 as stated fails: in the same session, with a kernel that refuses the single
  step, the trap PC lies in \<^verbatim>\<open>runtime.breakpoint\<close> and \<^verbatim>\<open>resume\<close> returns the error of
  the step; the session did not advance two instructions and did not report success.
\<close>

theorem resume_classifies_trap_counterexample:
  "thread_CurrentPC E_step_fails (fst (trapWait E_step_fails dbp_rtbp)) 1 = Inr 0x4005 \<and>
   CurrentBreakpoint (fst (trapWait E_step_fails dbp_rtbp)) = None \<and>
   map_option Name (PCToFunc E_step_fails 0x4005) = Some ''runtime.breakpoint'' \<and>
   snd (dbp_resume E_step_fails dbp_rtbp) =
     Some (Errorf ''step failed: %s'' [AErr (OSError ''ptrace: no such process'')])"
  by code_simp

subsection \<open>next of a thread without a candidate line\<close>

text \<open>
  C3, as amended. When the source index gives no candidate line and the registers of
  the thread can be read, the return address is the little-endian value of the
  eight bytes at SP plus the return-address offset of the frame entry. If the
  function at that address is \<^verbatim>\<open>runtime.goexit\<close>, the tasklet of the thread is read
  with \<^verbatim>\<open>curG\<close>: its failure is the result, its success gives
  \<^verbatim>\<open>GoroutineExitingError\<close> with the id of the tasklet. Otherwise the result is
  success and the session is unchanged, no breakpoint installed.
\<close>

theorem thread_next_no_candidate:
  assumes lines: "NextLines E file line = Inr []"
      and regs: "thread_Registers E dbp tid = Inr r"
      and ret: "ret = le_bytes (fst (readMemory E tid (SP r + ReturnAddressOffset fde curpc) 8 (proc dbp)))"
  shows "thread_next E dbp tid curpc fde file line =
     (if \<exists>fn. snd (snd (PCToLine E ret)) = Some fn \<and> Name fn = ''runtime.goexit'' then
        (case curG E dbp tid of
           (dbp1, Inl e) \<Rightarrow> (dbp1, Some e)
         | (dbp1, Inr g) \<Rightarrow> (dbp1, Some (GoroutineExitingError (Id g))))
      else (dbp, None))"
proof -
  have len: "length (fst (readMemory E tid a 8 (proc dbp))) = 8" for a
  proof -
    have "length (read_bytes m a n) = n" for m n and a :: u64
      by (induction n arbitrary: a) auto
    then show ?thesis by (simp add: readMemory_def split: option.splits)
  qed
  have "ReturnAddressFromOffset E dbp tid (ReturnAddressOffset fde curpc) = Inr ret"
    using regs len by (simp add: ReturnAddressFromOffset_def Uint64_def ret)
  with lines show ?thesis
    by (simp add: thread_next_def split: option.splits)
qed

text \<open>
  In the session \<open>dbp_tail\<close>, thread 1 at line 35 with the return address 0x3004
  inside \<^verbatim>\<open>runtime.goexit\<close>: \<^verbatim>\<open>curG\<close> reads tasklet 1 and \<^verbatim>\<open>next\<close> returns
  \<^verbatim>\<open>GoroutineExitingError\<close> with id 1.
\<close>

theorem thread_next_no_candidate_witness:
  "NextLines E0 ''/go/testnextprog.go'' 35 = Inr [] \<and>
   ReturnAddressFromOffset E0 dbp_tail 1 (ReturnAddressOffset fde0 0x1090) = Inr 0x3004 \<and>
   map_option Name (snd (snd (PCToLine E0 0x3004))) = Some ''runtime.goexit'' \<and>
   snd (curG E0 dbp_tail 1) = Inr g1 \<and>
   snd (thread_next E0 dbp_tail 1 0x1090 fde0 ''/go/testnextprog.go'' 35) =
     Some (GoroutineExitingError 1)"
proof -
  let ?exit = "case curG E0 dbp_tail 1 of
      (dbp1, Inl e) \<Rightarrow> (dbp1, Some e)
    | (dbp1, Inr g) \<Rightarrow> (dbp1, Some (GoroutineExitingError (Id g)))"
  have lines: "NextLines E0 ''/go/testnextprog.go'' 35 = Inr []" by code_simp
  have regs: "thread_Registers E0 dbp_tail 1 = Inr \<lparr>PC = 0x1090, SP = 0x7000\<rparr>" by code_simp
  have ret: "0x3004 = le_bytes (fst (readMemory E0 1
      (SP \<lparr>PC = 0x1090, SP = 0x7000\<rparr> + ReturnAddressOffset fde0 0x1090) 8 (proc dbp_tail)))"
    by code_simp
  have fn: "snd (snd (PCToLine E0 0x3004)) =
      Some \<lparr>Name = ''runtime.goexit'', Entry = 0x3000, End = 0x3010\<rparr>"
    by code_simp
  have eq: "thread_next E0 dbp_tail 1 0x1090 fde0 ''/go/testnextprog.go'' 35 = ?exit"
    using thread_next_no_candidate [OF lines regs ret] fn by simp
  have facts: "ReturnAddressFromOffset E0 dbp_tail 1 (ReturnAddressOffset fde0 0x1090) = Inr 0x3004 \<and>
      snd (curG E0 dbp_tail 1) = Inr g1 \<and> snd ?exit = Some (GoroutineExitingError 1)"
    by code_simp
  from lines fn facts show ?thesis
    by (simp only: eq) simp
qed

text \<open>
  C3 as stated fails: with a symbol table that has no \<^verbatim>\<open>runtime.getg\<close>, the
  candidate set is empty and the return address lies in \<^verbatim>\<open>runtime.goexit\<close>, yet
  \<^verbatim>\<open>next\<close> returns the error of \<^verbatim>\<open>curG\<close> and not \<^verbatim>\<open>GoroutineExitingError\<close>.
\<close>

theorem thread_next_no_candidate_counterexample:
  "NextLines E_no_getg ''/go/testnextprog.go'' 35 = Inr [] \<and>
   ReturnAddressFromOffset E_no_getg dbp_tail 1 (ReturnAddressOffset fde0 0x1090) = Inr 0x3004 \<and>
   map_option Name (snd (snd (PCToLine E_no_getg 0x3004))) = Some ''runtime.goexit'' \<and>
   snd (thread_next E_no_getg dbp_tail 1 0x1090 fde0 ''/go/testnextprog.go'' 35) =
     Some (Errorf ''could not find function %s'' [AStr ''runtime.getg''])"
  by code_simp

subsection \<open>next of the session clears the temp breakpoints\<close>

lemma clearBreakpoint_hw_cell:
  assumes cells: "HWBreakPoints dbp = pre @ Some bp # post"
      and pre: "\<forall>b \<in> set (hw_refs pre). Addr (objs dbp b) \<noteq> Addr (objs dbp bp)"
  shows "clearBreakpoint E dbp tid (Addr (objs dbp bp)) =
     (case clearHardwareBreakpoint E (length pre) tid (proc dbp) of
        Some e \<Rightarrow> (dbp\<lparr>HWBreakPoints := pre @ None # post\<rparr>, Inl e)
      | None \<Rightarrow> (dbp\<lparr>HWBreakPoints := pre @ None # post\<rparr>, Inr bp))"
proof -
  have "hw_at (objs dbp) (Addr (objs dbp bp)) 0 (HWBreakPoints dbp) = Some (length pre, bp)"
    unfolding cells using pre by (simp add: hw_at_append)
  then show ?thesis
    by (cases "clearHardwareBreakpoint E (length pre) tid (proc dbp)")
       (simp_all add: clearBreakpoint_def Let_def cells list_update_length)
qed

lemma clearTemp_hw_ok:
  assumes "clearTemp_hw E dbp cells = (dbp', None)"
      and "HWBreakPoints dbp = pre @ cells"
      and "distinct (map (\<lambda>b. Addr (objs dbp b)) (hw_refs (pre @ cells)))"
  shows "dbp' = dbp\<lparr>HWBreakPoints := pre @ hw_without_temp (objs dbp) cells\<rparr>"
  using assms
proof (induction E dbp cells arbitrary: pre rule: clearTemp_hw.induct)
  case (1 E dbp)
  then show ?case by (simp add: hw_without_temp_def)
next
  case (2 E dbp cells)
  have "dbp' = dbp\<lparr>HWBreakPoints := (pre @ [None]) @ hw_without_temp (objs dbp) cells\<rparr>"
  proof (rule "2.IH")
    show "clearTemp_hw E dbp cells = (dbp', None)" using "2.prems"(1) by simp
    show "HWBreakPoints dbp = (pre @ [None]) @ cells" using "2.prems"(2) by simp
    show "distinct (map (\<lambda>b. Addr (objs dbp b)) (hw_refs ((pre @ [None]) @ cells)))"
      using "2.prems"(3) by (simp add: hw_refs_append hw_refs_Cons_None hw_refs_Nil)
  qed
  then show ?case by (simp add: hw_without_temp_def)
next
  case (3 E dbp bp cells)
  show ?case
  proof (cases "Temp (objs dbp bp)")
    case False
    have "dbp' = dbp\<lparr>HWBreakPoints := (pre @ [Some bp]) @ hw_without_temp (objs dbp) cells\<rparr>"
    proof (rule "3.IH"(2) [OF False])
      show "clearTemp_hw E dbp cells = (dbp', None)" using "3.prems"(1) False by simp
      show "HWBreakPoints dbp = (pre @ [Some bp]) @ cells" using "3.prems"(2) by simp
      show "distinct (map (\<lambda>b. Addr (objs dbp b)) (hw_refs ((pre @ [Some bp]) @ cells)))"
        using "3.prems"(3) by simp
    qed
    with False show ?thesis by (simp add: hw_without_temp_def)
  next
    case True
    have "Addr (objs dbp bp) \<notin> (\<lambda>b. Addr (objs dbp b)) ` set (hw_refs pre)"
      using "3.prems"(3) by (simp add: hw_refs_append hw_refs_Cons_Some)
    then have pre: "\<forall>b \<in> set (hw_refs pre). Addr (objs dbp b) \<noteq> Addr (objs dbp bp)"
      by (rule notin_image_ball)
    let ?dbp1 = "dbp\<lparr>HWBreakPoints := pre @ None # cells\<rparr>"
    have clr: "dbp_Clear E dbp (Addr (objs dbp bp)) =
        (case clearHardwareBreakpoint E (length pre) (CurrentThread dbp) (proc dbp) of
           Some e \<Rightarrow> (?dbp1, Inl e)
         | None \<Rightarrow> (?dbp1, Inr bp))"
      unfolding dbp_Clear_def using "3.prems"(2) pre by (rule clearBreakpoint_hw_cell)
    show ?thesis
    proof (cases "clearHardwareBreakpoint E (length pre) (CurrentThread dbp) (proc dbp)")
      case (Some e)
      with clr True "3.prems"(1) show ?thesis by simp
    next
      case None
      with clr have c: "dbp_Clear E dbp (Addr (objs dbp bp)) = (?dbp1, Inr bp)" by simp
      have "dbp' = ?dbp1\<lparr>HWBreakPoints := (pre @ [None]) @ hw_without_temp (objs ?dbp1) cells\<rparr>"
      proof (rule "3.IH"(1) [OF True])
        show "(?dbp1, Inr bp) = dbp_Clear E dbp (Addr (objs dbp bp))" using c by simp
        show "Inr bp = Inr bp" ..
        show "clearTemp_hw E ?dbp1 cells = (dbp', None)" using "3.prems"(1) True c by simp
        show "HWBreakPoints ?dbp1 = (pre @ [None]) @ cells" by simp
        show "distinct (map (\<lambda>b. Addr (objs ?dbp1 b)) (hw_refs ((pre @ [None]) @ cells)))"
          using "3.prems"(3)
          by (simp add: hw_refs_append hw_refs_Cons_None hw_refs_Cons_Some hw_refs_Nil)
      qed
      with True show ?thesis by (simp add: hw_without_temp_def)
    qed
  qed
qed

lemma filter_distinct_key:
  "distinct (map fst (pre @ (k, v) # rest)) \<Longrightarrow>
     filter (\<lambda>kv. fst kv \<noteq> k) (pre @ (k, v) # rest) = pre @ rest"
proof -
  assume d: "distinct (map fst (pre @ (k, v) # rest))"
  then have "\<forall>kv \<in> set pre. fst kv \<noteq> k" and "\<forall>kv \<in> set rest. fst kv \<noteq> k"
    by auto
  then have "filter (\<lambda>kv. fst kv \<noteq> k) pre = pre" and "filter (\<lambda>kv. fst kv \<noteq> k) rest = rest"
    by (simp_all add: filter_id_conv)
  then show ?thesis by simp
qed

lemma clearBreakpoint_sw_entry:
  assumes hw: "hw_at (objs dbp) k 0 (HWBreakPoints dbp) = None"
      and m: "map_of (BreakPoints dbp) k = Some bp"
      and d: "OriginalData (objs dbp bp) = [b]"
      and a: "Addr (objs dbp bp) = k"
  shows "clearBreakpoint E dbp tid k =
     (case poke_err E (proc dbp) tid k [b] of
        Some e \<Rightarrow> (dbp, Inl (Errorf ''could not clear breakpoint %s'' [AErr e]))
      | None \<Rightarrow>
          (dbp\<lparr>proc := (proc dbp)\<lparr>mem := (mem (proc dbp))(k := b)\<rparr>,
               BreakPoints := filter (\<lambda>kv. fst kv \<noteq> k) (BreakPoints dbp)\<rparr>,
           Inr bp))"
  using hw m d a
  by (cases "poke_err E (proc dbp) tid k [b]")
     (simp_all add: clearBreakpoint_def writeMemory_def)

lemma clearTemp_sw_ok:
  assumes "clearTemp_sw E dbp entries = (dbp', None)"
      and "BreakPoints dbp = pre @ entries"
      and "distinct (map fst (pre @ entries))"
      and "list_all (\<lambda>kv. Addr (objs dbp (snd kv)) = fst kv) entries"
      and "list_all (\<lambda>kv. length (OriginalData (objs dbp (snd kv))) = 1) entries"
      and "\<forall>kv \<in> set entries. hw_at (objs dbp) (fst kv) 0 (HWBreakPoints dbp) = None"
  shows "\<exists>m'. dbp' = dbp\<lparr>proc := (proc dbp)\<lparr>mem := m'\<rparr>,
                         BreakPoints := pre @ sw_without_temp (objs dbp) entries\<rparr> \<and>
              (\<forall>a. a \<notin> fst ` set (filter (\<lambda>kv. Temp (objs dbp (snd kv))) entries) \<longrightarrow>
                  m' a = mem (proc dbp) a)"
  using assms
proof (induction entries arbitrary: dbp pre)
  case Nil
  then have "dbp' = dbp\<lparr>proc := (proc dbp)\<lparr>mem := mem (proc dbp)\<rparr>,
                         BreakPoints := pre @ sw_without_temp (objs dbp) []\<rparr>"
    by (simp add: sw_without_temp_def)
  then show ?case by blast
next
  case (Cons kv entries)
  obtain k bp where kv: "kv = (k, bp)" by (cases kv)
  have present: "(k, bp) \<in> set (BreakPoints dbp)"
    using Cons.prems(2) kv by simp
  show ?case
  proof (cases "Temp (objs dbp bp)")
    case False
    have "\<exists>m'. dbp' = dbp\<lparr>proc := (proc dbp)\<lparr>mem := m'\<rparr>,
                   BreakPoints := (pre @ [kv]) @ sw_without_temp (objs dbp) entries\<rparr> \<and>
              (\<forall>a. a \<notin> fst ` set (filter (\<lambda>kv. Temp (objs dbp (snd kv))) entries) \<longrightarrow>
                  m' a = mem (proc dbp) a)"
    proof (rule Cons.IH)
      show "clearTemp_sw E dbp entries = (dbp', None)"
        using Cons.prems(1) present False kv by simp
      show "BreakPoints dbp = (pre @ [kv]) @ entries" using Cons.prems(2) by simp
      show "distinct (map fst ((pre @ [kv]) @ entries))" using Cons.prems(3) by simp
      show "list_all (\<lambda>kv. Addr (objs dbp (snd kv)) = fst kv) entries"
        using Cons.prems(4) by simp
      show "list_all (\<lambda>kv. length (OriginalData (objs dbp (snd kv))) = 1) entries"
        using Cons.prems(5) by simp
      show "\<forall>kv \<in> set entries. hw_at (objs dbp) (fst kv) 0 (HWBreakPoints dbp) = None"
        using Cons.prems(6) by simp
    qed
    with False kv show ?thesis by (simp add: sw_without_temp_def)
  next
    case True
    have a: "Addr (objs dbp bp) = k" using Cons.prems(4) kv by simp
    obtain b where b: "OriginalData (objs dbp bp) = [b]"
      using Cons.prems(5) kv by (cases "OriginalData (objs dbp bp)") auto
    have hw: "hw_at (objs dbp) k 0 (HWBreakPoints dbp) = None"
      using Cons.prems(6) kv by simp
    have "distinct (map fst (BreakPoints dbp))"
      using Cons.prems(2,3) by simp
    then have m: "map_of (BreakPoints dbp) k = Some bp"
      using present by (simp only: map_of_eq_Some_iff)
    let ?dbp1 = "dbp\<lparr>proc := (proc dbp)\<lparr>mem := (mem (proc dbp))(k := b)\<rparr>,
                     BreakPoints := pre @ entries\<rparr>"
    have "distinct (map fst (pre @ (k, bp) # entries))"
      using Cons.prems(3) kv by simp
    then have "filter (\<lambda>kv. fst kv \<noteq> k) (pre @ (k, bp) # entries) = pre @ entries"
      by (rule filter_distinct_key)
    then have flt: "filter (\<lambda>kv. fst kv \<noteq> k) (BreakPoints dbp) = pre @ entries"
      using Cons.prems(2) kv by simp
    have clr: "dbp_Clear E dbp k =
        (case poke_err E (proc dbp) (CurrentThread dbp) k [b] of
           Some e \<Rightarrow> (dbp, Inl (Errorf ''could not clear breakpoint %s'' [AErr e]))
         | None \<Rightarrow> (?dbp1, Inr bp))"
      unfolding dbp_Clear_def clearBreakpoint_sw_entry [OF hw m b a] flt ..
    show ?thesis
    proof (cases "poke_err E (proc dbp) (CurrentThread dbp) k [b]")
      case (Some e)
      with clr Cons.prems(1) present True kv a show ?thesis by simp
    next
      case None
      with clr have c: "dbp_Clear E dbp k = (?dbp1, Inr bp)" by simp
      have "\<exists>m'. dbp' = ?dbp1\<lparr>proc := (proc ?dbp1)\<lparr>mem := m'\<rparr>,
                   BreakPoints := pre @ sw_without_temp (objs ?dbp1) entries\<rparr> \<and>
              (\<forall>a. a \<notin> fst ` set (filter (\<lambda>kv. Temp (objs ?dbp1 (snd kv))) entries) \<longrightarrow>
                  m' a = mem (proc ?dbp1) a)"
      proof (rule Cons.IH)
        show "clearTemp_sw E ?dbp1 entries = (dbp', None)"
          using Cons.prems(1) present True kv a c by simp
        show "BreakPoints ?dbp1 = pre @ entries" by simp
        show "distinct (map fst (pre @ entries))" using Cons.prems(3) by simp
        show "list_all (\<lambda>kv. Addr (objs ?dbp1 (snd kv)) = fst kv) entries"
          using Cons.prems(4) by simp
        show "list_all (\<lambda>kv. length (OriginalData (objs ?dbp1 (snd kv))) = 1) entries"
          using Cons.prems(5) by simp
        show "\<forall>kv \<in> set entries. hw_at (objs ?dbp1) (fst kv) 0 (HWBreakPoints ?dbp1) = None"
          using Cons.prems(6) by simp
      qed
      then obtain m' where
        d': "dbp' = ?dbp1\<lparr>proc := (proc ?dbp1)\<lparr>mem := m'\<rparr>,
                   BreakPoints := pre @ sw_without_temp (objs dbp) entries\<rparr>"
        and frame: "\<forall>a. a \<notin> fst ` set (filter (\<lambda>kv. Temp (objs dbp (snd kv))) entries) \<longrightarrow>
                  m' a = ((mem (proc dbp))(k := b)) a"
        by auto
      have "dbp' = dbp\<lparr>proc := (proc dbp)\<lparr>mem := m'\<rparr>,
                   BreakPoints := pre @ sw_without_temp (objs dbp) (kv # entries)\<rparr>"
        using d' True kv by (simp add: sw_without_temp_def)
      moreover have "\<forall>a. a \<notin> fst ` set (filter (\<lambda>kv. Temp (objs dbp (snd kv))) (kv # entries)) \<longrightarrow>
                  m' a = mem (proc dbp) a"
        using frame True kv by auto
      ultimately show ?thesis by blast
    qed
  qed
qed

lemma hw_refs_without_temp:
  "set (hw_refs (hw_without_temp h cells)) = {b \<in> set (hw_refs cells). \<not> Temp (h b)}"
proof (induction cells)
  case Nil
  then show ?case by (simp add: hw_without_temp_def hw_refs_def)
next
  case (Cons c cells)
  then show ?case
    by (cases c) (auto simp: hw_without_temp_def hw_refs_def)
qed

lemma clearTempBreakpoints_ok:
  assumes ok: "clearTempBreakpoints E dbp = (dbp', None)"
      and u: "unique_addrs dbp" and k: "keyed_by_addr dbp" and sb: "single_byte dbp"
  shows "HWBreakPoints dbp' = hw_without_temp (objs dbp) (HWBreakPoints dbp) \<and>
         BreakPoints dbp' = sw_without_temp (objs dbp) (BreakPoints dbp) \<and>
         objs dbp' = objs dbp \<and>
         no_temp dbp' \<and>
         (\<forall>bp \<in> set (stored dbp). \<not> Temp (objs dbp bp) \<longrightarrow>
            mem (proc dbp') (Addr (objs dbp bp)) = mem (proc dbp) (Addr (objs dbp bp)))"
proof -
  let ?h = "objs dbp"
  let ?A = "\<lambda>b. Addr (?h b)"
  from u have dist: "distinct (map ?A (hw_refs (HWBreakPoints dbp) @ map snd (BreakPoints dbp)))"
    by (simp add: unique_addrs_def stored_def)
  from k have keyed: "list_all (\<lambda>kv. ?A (snd kv) = fst kv) (BreakPoints dbp)"
    by (simp add: keyed_by_addr_def)
  then have keys: "map fst (BreakPoints dbp) = map (\<lambda>kv. ?A (snd kv)) (BreakPoints dbp)"
    by (simp add: list_all_iff)
  from dist have "distinct (map (\<lambda>kv. ?A (snd kv)) (BreakPoints dbp))"
    by (simp add: comp_def)
  then have dk: "distinct (map fst (BreakPoints dbp))"
    by (simp only: keys)
  obtain d1 r1 where hwrun: "clearTemp_hw E dbp (HWBreakPoints dbp) = (d1, r1)"
    by (cases "clearTemp_hw E dbp (HWBreakPoints dbp)")
  with ok have r1: "r1 = None" and swrun: "clearTemp_sw E d1 (BreakPoints d1) = (dbp', None)"
    by (auto simp: clearTempBreakpoints_def split: option.splits)
  have "d1 = dbp\<lparr>HWBreakPoints := [] @ hw_without_temp ?h (HWBreakPoints dbp)\<rparr>"
  proof (rule clearTemp_hw_ok)
    show "clearTemp_hw E dbp (HWBreakPoints dbp) = (d1, None)" using hwrun r1 by simp
    show "HWBreakPoints dbp = [] @ HWBreakPoints dbp" by simp
    show "distinct (map ?A (hw_refs ([] @ HWBreakPoints dbp)))" using dist by simp
  qed
  then have d1: "d1 = dbp\<lparr>HWBreakPoints := hw_without_temp ?h (HWBreakPoints dbp)\<rparr>"
    by simp
  have nohw: "\<forall>kv \<in> set (BreakPoints dbp). hw_at ?h (fst kv) 0 (HWBreakPoints d1) = None"
  proof
    fix kv assume kv: "kv \<in> set (BreakPoints dbp)"
    with keyed have "?A (snd kv) = fst kv" by (simp add: list_all_iff)
    moreover from kv have "?A (snd kv) \<in> ?A ` set (map snd (BreakPoints dbp))" by simp
    ultimately have "fst kv \<notin> ?A ` set (hw_refs (HWBreakPoints dbp))"
      using dist by auto
    then have "\<forall>b \<in> set (hw_refs (HWBreakPoints dbp)). ?A b \<noteq> fst kv"
      by (rule notin_image_ball)
    then show "hw_at ?h (fst kv) 0 (HWBreakPoints d1) = None"
      by (simp add: hw_at_None_iff d1 hw_refs_without_temp)
  qed
  have "\<exists>m'. dbp' = d1\<lparr>proc := (proc d1)\<lparr>mem := m'\<rparr>,
                         BreakPoints := [] @ sw_without_temp (objs d1) (BreakPoints d1)\<rparr> \<and>
              (\<forall>a. a \<notin> fst ` set (filter (\<lambda>kv. Temp (objs d1 (snd kv))) (BreakPoints d1)) \<longrightarrow>
                  m' a = mem (proc d1) a)"
  proof (rule clearTemp_sw_ok)
    show "clearTemp_sw E d1 (BreakPoints d1) = (dbp', None)" by (rule swrun)
    show "BreakPoints d1 = [] @ BreakPoints d1" by simp
    show "distinct (map fst ([] @ BreakPoints d1))" using dk by (simp add: d1)
    show "list_all (\<lambda>kv. Addr (objs d1 (snd kv)) = fst kv) (BreakPoints d1)"
      using keyed by (simp add: d1)
    show "list_all (\<lambda>kv. length (OriginalData (objs d1 (snd kv))) = 1) (BreakPoints d1)"
      using sb by (simp add: d1 single_byte_def)
    show "\<forall>kv \<in> set (BreakPoints d1). hw_at (objs d1) (fst kv) 0 (HWBreakPoints d1) = None"
      using nohw by (simp add: d1)
  qed
  then obtain m' where
    d': "dbp' = dbp\<lparr>HWBreakPoints := hw_without_temp ?h (HWBreakPoints dbp),
                     proc := (proc dbp)\<lparr>mem := m'\<rparr>,
                     BreakPoints := sw_without_temp ?h (BreakPoints dbp)\<rparr>"
    and frame: "\<forall>a. a \<notin> fst ` set (filter (\<lambda>kv. Temp (?h (snd kv))) (BreakPoints dbp)) \<longrightarrow>
                  m' a = mem (proc dbp) a"
    by (auto simp: d1)
  have nt: "no_temp dbp'"
    by (auto simp: no_temp_def stored_def d' list_all_iff hw_refs_without_temp sw_without_temp_def)
  have memk: "mem (proc dbp') (?A bp) = mem (proc dbp) (?A bp)"
    if bp: "bp \<in> set (stored dbp)" and nontemp: "\<not> Temp (?h bp)" for bp
  proof -
    have "?A bp \<notin> fst ` set (filter (\<lambda>kv. Temp (?h (snd kv))) (BreakPoints dbp))"
    proof
      assume "?A bp \<in> fst ` set (filter (\<lambda>kv. Temp (?h (snd kv))) (BreakPoints dbp))"
      then obtain kv where kv: "kv \<in> set (BreakPoints dbp)" "Temp (?h (snd kv))" "fst kv = ?A bp"
        by auto
      with keyed have same: "?A (snd kv) = ?A bp" by (simp add: list_all_iff)
      from kv have "snd kv \<in> set (stored dbp)" by (simp add: stored_def)
      moreover from u have "inj_on ?A (set (stored dbp))"
        by (simp add: unique_addrs_def distinct_map)
      ultimately have "snd kv = bp" using bp same by (auto dest: inj_onD)
      with kv nontemp show False by simp
    qed
    with frame show ?thesis by (simp add: d')
  qed
  from d' nt memk show ?thesis by simp
qed

text \<open>
  C2, as amended. Let \<^verbatim>\<open>next\<close> get past its first \<^verbatim>\<open>curG\<close>, so that the deferred
  \<^verbatim>\<open>clearTempBreakpoints\<close> runs when it exits, with success or with the error \<open>r\<close>;
  let the table at that moment hold at most one breakpoint per address, the map be
  keyed by address and every software breakpoint hold one original byte; and let no
  \<^verbatim>\<open>Clear\<close> of the clean-up fail. Then no breakpoint with the temp flag is left in
  either store, and every other breakpoint is kept as it was: the hardware cells and
  the map are the old ones with the temp breakpoints taken out, the breakpoint
  objects are unchanged, and the byte of memory at the address of every breakpoint
  that is kept is unchanged.
\<close>

theorem next_exit_clears_temp:
  assumes curg: "curG E dbp (CurrentThread dbp) = (dbp1, Inr curg)"
      and body: "next_body n E dbp1 curg = Some (dbp2, r)"
      and cleanup: "clearTempBreakpoints E dbp2 = (dbp3, None)"
      and wf: "unique_addrs dbp2" "keyed_by_addr dbp2" "single_byte dbp2"
  shows "dbp_next n E dbp = Some (dbp3, r) \<and>
         no_temp dbp3 \<and>
         HWBreakPoints dbp3 = hw_without_temp (objs dbp2) (HWBreakPoints dbp2) \<and>
         BreakPoints dbp3 = sw_without_temp (objs dbp2) (BreakPoints dbp2) \<and>
         objs dbp3 = objs dbp2 \<and>
         (\<forall>bp \<in> set (stored dbp2). \<not> Temp (objs dbp2 bp) \<longrightarrow>
            mem (proc dbp3) (Addr (objs dbp2 bp)) = mem (proc dbp2) (Addr (objs dbp2 bp)))"
proof -
  have "dbp_next n E dbp = Some (dbp3, r)"
    using curg body cleanup by (simp add: dbp_next_def)
  with clearTempBreakpoints_ok [OF cleanup wf] show ?thesis by simp
qed

text \<open>
  \<^verbatim>\<open>next\<close> from line 26 of the fixture, in the session \<open>dbp_line26\<close>: temp breakpoints
  are set at lines 27 and 31 (0x1060 and 0x1070), the thread stops at line 27 and
  that breakpoint is cleared on the spot; when the body is left the one at line 31
  is still in the map. After the clean-up no temp breakpoint is left, the byte at
  0x1070 is restored, and the breakpoint of the user at line 34 is where it was,
  its trap byte in memory.
\<close>

theorem next_exit_clears_temp_witness:
  "BreakPoints line26_left = [(0x1080, 1), (0x1070, 4)] \<and>
   Temp (objs line26_left 4) \<and>
   mem (proc line26_left) 0x1070 = trap_byte \<and>
   dbp_next 3 E0 dbp_line26 = Some (line26_cleaned, None) \<and>
   no_temp line26_cleaned \<and>
   HWBreakPoints line26_cleaned = [None, None, None, None] \<and>
   BreakPoints line26_cleaned = [(0x1080, 1)] \<and>
   objs line26_cleaned 1 = \<lparr>ID = 1, Addr = 0x1080, OriginalData = [0], Temp = False\<rparr> \<and>
   mem (proc line26_cleaned) 0x1080 = trap_byte \<and>
   mem (proc line26_cleaned) 0x1070 = 0 \<and>
   PC (regs (proc line26_cleaned) 1) = 0x1060"
proof -
  have ct: "CurrentThread dbp_line26 = 1" by code_simp
  have curg: "curG E0 dbp_line26 (CurrentThread dbp_line26) = (line26_started, Inr g1)"
    unfolding ct line26_started_def by (rule pair_fstI) code_simp
  have body: "next_body 3 E0 line26_started g1 = Some (line26_left, None)"
    unfolding line26_left_def by (rule Some_fst_theI) code_simp
  have cleanup: "clearTempBreakpoints E0 line26_left = (line26_cleaned, None)"
    unfolding line26_cleaned_def by (rule pair_fstI) code_simp
  have wf: "unique_addrs line26_left" "keyed_by_addr line26_left" "single_byte line26_left"
    by code_simp+
  have facts: "BreakPoints line26_left = [(0x1080, 1), (0x1070, 4)] \<and>
      Temp (objs line26_left 4) \<and>
      mem (proc line26_left) 0x1070 = trap_byte \<and>
      HWBreakPoints line26_cleaned = [None, None, None, None] \<and>
      BreakPoints line26_cleaned = [(0x1080, 1)] \<and>
      objs line26_cleaned 1 = \<lparr>ID = 1, Addr = 0x1080, OriginalData = [0], Temp = False\<rparr> \<and>
      mem (proc line26_cleaned) 0x1080 = trap_byte \<and>
      mem (proc line26_cleaned) 0x1070 = 0 \<and>
      PC (regs (proc line26_cleaned) 1) = 0x1060"
    by code_simp
  from next_exit_clears_temp [OF curg body cleanup wf] facts show ?thesis
    by simp
qed

text \<open>
  C2 as stated fails, in two ways. In the same run with a kernel that refuses to
  write at 0x1070, \<^verbatim>\<open>next\<close> returns success and the temp breakpoint 4 at 0x1070 is
  still in the map: the clean-up stops at the first \<^verbatim>\<open>Clear\<close> that fails and its
  error is dropped. And in the session \<open>dbp_at_bp\<close>, which holds a temp breakpoint,
  with a symbol table that has no \<^verbatim>\<open>runtime.getg\<close>, \<^verbatim>\<open>next\<close> returns the error of
  its first \<^verbatim>\<open>curG\<close> before the clean-up is deferred, and the temp breakpoint stays.
\<close>

theorem next_exit_clears_temp_counterexample:
  "map_option snd (dbp_next 3 E_restore_fails dbp_line26) = Some None \<and>
   BreakPoints (fst (the (dbp_next 3 E_restore_fails dbp_line26))) = [(0x1080, 1), (0x1070, 4)] \<and>
   Temp (objs (fst (the (dbp_next 3 E_restore_fails dbp_line26))) 4) \<and>
   \<not> no_temp (fst (the (dbp_next 3 E_restore_fails dbp_line26))) \<and>
   map_option snd (dbp_next 3 E_no_getg dbp_at_bp) =
     Some (Some (Errorf ''could not find function %s'' [AStr ''runtime.getg''])) \<and>
   BreakPoints (fst (the (dbp_next 3 E_no_getg dbp_at_bp))) = [(0x1050, 1)] \<and>
   Temp (objs (fst (the (dbp_next 3 E_no_getg dbp_at_bp))) 1) \<and>
   \<not> no_temp (fst (the (dbp_next 3 E_no_getg dbp_at_bp)))"
  by code_simp

subsection \<open>One round of the loops of next\<close>

text \<open>
  One round of the loop over the threads: when \<^verbatim>\<open>Continue\<close> of a blocked thread or
  \<^verbatim>\<open>Next\<close> of another thread fails, whatever the error, the loop ends with the session
  and the error of that call.
\<close>

lemma next_threads_first_error:
  "(blocked E (proc dbp) th \<longrightarrow> thread_Continue E dbp th = (dbp1, Some e) \<longrightarrow>
      next_threads E dbp (th # ths) = (dbp1, Some e)) \<and>
   (\<not> blocked E (proc dbp) th \<longrightarrow> thread_Next E dbp th = (dbp1, Some e) \<longrightarrow>
      next_threads E dbp (th # ths) = (dbp1, Some e))"
  by simp

text \<open>
  One round of the inner loop of \<^verbatim>\<open>next\<close> of a thread: the current PC is skipped;
  another PC is installed as it is when the frame entry covers it and replaced by the
  return address when not; a new breakpoint gets its temp flag set; an
  \<^verbatim>\<open>BreakPointExistsError\<close> is passed over; any other error of \<^verbatim>\<open>Break\<close> ends the loop
  with the zero value of \<^verbatim>\<open>BreakPointExistsError\<close>.
\<close>

lemma next_pcs_candidate:
  "next_pcs E dbp tid curpc fde (curpc # pcs) = next_pcs E dbp tid curpc fde pcs \<and>
   (pc \<noteq> curpc \<longrightarrow>
     (if Cover fde pc then Inr pc
      else ReturnAddressFromOffset E dbp tid (ReturnAddressOffset fde curpc)) = Inr at \<longrightarrow>
       (\<forall>dbp1 bp. dbp_Break E dbp at = (dbp1, Inr bp) \<longrightarrow>
          next_pcs E dbp tid curpc fde (pc # pcs) =
            next_pcs E (dbp1\<lparr>objs := (objs dbp1)(bp := (objs dbp1 bp)\<lparr>Temp := True\<rparr>)\<rparr>)
              tid curpc fde pcs) \<and>
       (\<forall>dbp1 a. dbp_Break E dbp at = (dbp1, Inl (BreakPointExistsError a)) \<longrightarrow>
          next_pcs E dbp tid curpc fde (pc # pcs) = next_pcs E dbp1 tid curpc fde pcs) \<and>
       (\<forall>dbp1 e. dbp_Break E dbp at = (dbp1, Inl e) \<longrightarrow> (\<forall>a. e \<noteq> BreakPointExistsError a) \<longrightarrow>
          next_pcs E dbp tid curpc fde (pc # pcs) = (dbp1, Some zero_BreakPointExistsError)))"
proof -
  have other: "(case e of BreakPointExistsError a \<Rightarrow> x a | _ \<Rightarrow> y) = y"
    if "\<forall>a. e \<noteq> BreakPointExistsError a" for e :: error and x :: "u64 \<Rightarrow> 'b" and y
    using that by (cases e) auto
  show ?thesis
    by (auto simp: other split: if_splits)
qed

subsection \<open>next of the session and GoroutineExitingError\<close>

text \<open>
  C1 does not hold of the code. In the session \<open>dbp_tail\<close> the threads are 1 and 2
  and thread 1 is not blocked; \<^verbatim>\<open>Next\<close> of thread 1 fails with
  \<^verbatim>\<open>GoroutineExitingError\<close>. The loop over the threads ends there, with the session
  and the error of that call, thread 2 is neither stepped nor continued, and
  \<^verbatim>\<open>next\<close> of the session returns the error.
\<close>

theorem next_aborts_on_GoroutineExiting:
  "Threads dbp_tail = [1, 2] \<and>
   \<not> blocked E0 (proc dbp_tail) 1 \<and>
   snd (thread_Next E0 dbp_tail 1) = Some (GoroutineExitingError 1) \<and>
   next_threads E0 dbp_tail [1, 2] = thread_Next E0 dbp_tail 1 \<and>
   map_option snd (dbp_next 3 E0 dbp_tail) = Some (Some (GoroutineExitingError 1))"
proof -
  have nb: "\<not> blocked E0 (proc dbp_tail) 1" by code_simp
  have r: "snd (thread_Next E0 dbp_tail 1) = Some (GoroutineExitingError 1)" by code_simp
  have "next_threads E0 dbp_tail [1, 2] = thread_Next E0 dbp_tail 1"
    using nb r by (cases "thread_Next E0 dbp_tail 1") simp
  moreover have "Threads dbp_tail = [1, 2] \<and>
      map_option snd (dbp_next 3 E0 dbp_tail) = Some (Some (GoroutineExitingError 1))"
    by code_simp
  ultimately show ?thesis using nb r by simp
qed

subsection \<open>next of a thread and the errors of Break\<close>

text \<open>
  C4 does not hold of the code where it says that another installation error is
  what \<^verbatim>\<open>next\<close> returns. From line 26 the candidate lines are 27 and 31; the PC of
  line 27 is covered by the frame entry; \<^verbatim>\<open>Break\<close> fails there with an error of the
  kernel; \<^verbatim>\<open>next\<close> returns the zero value of \<^verbatim>\<open>BreakPointExistsError\<close> instead.
\<close>

theorem next_returns_zero_BreakPointExistsError:
  "NextLines E_break_fails ''/go/testnextprog.go'' 26 = Inr [27, 31] \<and>
   AllPCsForFileLine E_break_fails ''/go/testnextprog.go'' 27 = [0x1060] \<and>
   Cover fde0 0x1060 \<and>
   snd (dbp_Break E_break_fails dbp0 0x1060) = Inl (OSError ''ptrace: input/output error'') \<and>
   snd (thread_next E_break_fails dbp0 1 0x1050 fde0 ''/go/testnextprog.go'' 26) =
     Some (BreakPointExistsError 0)"
  by code_simp

subsection \<open>GoroutinesInfo and the read of runtime.allg\<close>

text \<open>
  C6 does not hold of the code. When the length of the task list and the address of
  \<^verbatim>\<open>runtime.allg\<close> are found and the read of the pointer at that address fails, the
  error of the read is not returned: \<^verbatim>\<open>GoroutinesInfo\<close> goes on to decode the slice
  that came back and panics.
\<close>

theorem GoroutinesInfo_drops_read_error:
  "allglenval E_read_fails (proc dbp0) = Inr 2 \<and>
   addressFor E_read_fails ''runtime.allg'' = Inr 0x6000 \<and>
   snd (thread_readMemory E_read_fails (CurrentThread dbp0) 0x6000 (unat (ptrsize E_read_fails)) (proc dbp0)) =
     Some (OSError ''ptrace: input/output error'') \<and>
   GoroutinesInfo E_read_fails dbp0 = Inl (Panic ''index out of range'')"
  by code_simp

subsection \<open>clearTempBreakpoints\<close>

text \<open>
  After a \<^verbatim>\<open>clearTempBreakpoints\<close> in which no \<^verbatim>\<open>Clear\<close> failed, on a table with at most
  one breakpoint per address, keyed by address, one original byte per software
  breakpoint: no breakpoint with the temp flag is left, the hardware cells and the
  map are the old ones with the temp breakpoints taken out, the breakpoint objects
  are unchanged, and so is the byte at the address of every breakpoint that is kept.
\<close>

theorem clearTempBreakpoints_removes_temps:
  assumes "clearTempBreakpoints E dbp = (dbp', None)"
      and "unique_addrs dbp" and "keyed_by_addr dbp" and "single_byte dbp"
  shows "HWBreakPoints dbp' = hw_without_temp (objs dbp) (HWBreakPoints dbp) \<and>
         BreakPoints dbp' = sw_without_temp (objs dbp) (BreakPoints dbp) \<and>
         objs dbp' = objs dbp \<and>
         no_temp dbp' \<and>
         (\<forall>bp \<in> set (stored dbp). \<not> Temp (objs dbp bp) \<longrightarrow>
            mem (proc dbp') (Addr (objs dbp bp)) = mem (proc dbp) (Addr (objs dbp bp)))"
  using assms by (rule clearTempBreakpoints_ok)

text \<open>
  On the table that \<^verbatim>\<open>next\<close> from line 26 leaves behind: the temp breakpoint at
  0x1070 goes, the breakpoint of the user at 0x1080 stays.
\<close>

theorem clearTempBreakpoints_removes_temps_witness:
  "BreakPoints line26_left = [(0x1080, 1), (0x1070, 4)] \<and>
   Temp (objs line26_left 4) \<and>
   snd (clearTempBreakpoints E0 line26_left) = None \<and>
   no_temp line26_cleaned \<and>
   BreakPoints line26_cleaned = [(0x1080, 1)] \<and>
   mem (proc line26_cleaned) 0x1080 = mem (proc line26_left) 0x1080"
proof -
  have cleanup: "clearTempBreakpoints E0 line26_left = (line26_cleaned, None)"
    unfolding line26_cleaned_def by (rule pair_fstI) code_simp
  have wf: "unique_addrs line26_left" "keyed_by_addr line26_left" "single_byte line26_left"
    by code_simp+
  have facts: "BreakPoints line26_left = [(0x1080, 1), (0x1070, 4)] \<and>
      Temp (objs line26_left 4) \<and> \<not> Temp (objs line26_left 1) \<and>
      Addr (objs line26_left 1) = 0x1080 \<and>
      stored line26_left = [1, 4] \<and>
      BreakPoints line26_cleaned = [(0x1080, 1)]"
    by code_simp
  from clearTempBreakpoints_removes_temps [OF cleanup wf] cleanup facts show ?thesis
    by simp
qed

subsection \<open>GoroutinesInfo returns a complete list\<close>

lemma allg_walk_Inr:
  "allg_walk E t tid p i k acc = Inr allg \<Longrightarrow>
     length allg = length acc + k \<and> take (length acc) allg = acc \<and>
     (\<forall>j<k. parseG E t tid (p + (i + of_nat j) * ptrsize E) = Inr (allg ! (length acc + j)))"
proof (induction k arbitrary: i acc)
  case 0
  then show ?case by simp
next
  case (Suc k)
  from Suc.prems obtain g where g: "parseG E t tid (p + i * ptrsize E) = Inr g"
    and rest: "allg_walk E t tid p (i + 1) k (acc @ [g]) = Inr allg"
    by (auto split: sum.splits)
  from Suc.IH [OF rest] have len: "length allg = length acc + Suc k"
    and tk: "take (Suc (length acc)) allg = acc @ [g]"
    and ih: "\<forall>j<k. parseG E t tid (p + (i + 1 + of_nat j) * ptrsize E) =
               Inr (allg ! (Suc (length acc) + j))"
    by simp_all
  have "take (length acc) allg = take (length acc) (take (Suc (length acc)) allg)"
    by (simp add: min_def)
  then have tk0: "take (length acc) allg = acc"
    by (simp add: tk)
  have "allg ! length acc = take (Suc (length acc)) allg ! length acc"
    by simp
  then have at: "allg ! length acc = g"
    by (simp add: tk)
  have "parseG E t tid (p + (i + of_nat j) * ptrsize E) = Inr (allg ! (length acc + j))"
    if "j < Suc k" for j
  proof (cases j)
    case 0
    with g at show ?thesis by simp
  next
    case (Suc j')
    with that ih have "parseG E t tid (p + (i + 1 + of_nat j') * ptrsize E) =
        Inr (allg ! (Suc (length acc) + j'))" by simp
    with Suc show ?thesis by (simp add: add.assoc)
  qed
  with len tk0 show ?case by simp
qed

text \<open>
  When \<^verbatim>\<open>GoroutinesInfo\<close> returns a list, the list has as many tasklets as the
  runtime's task-list length says, and the tasklet at index \<open>j\<close> is the one parsed
  at slot \<open>j\<close> of the array: no partial list is returned.
\<close>

theorem GoroutinesInfo_complete:
  assumes "GoroutinesInfo E dbp = Inr allg"
  shows "\<exists>n allgptr. allglenval E (proc dbp) = Inr n \<and> length allg = unat n \<and>
           (\<forall>j < unat n. parseG E (proc dbp) (CurrentThread dbp) (allgptr + of_nat j * ptrsize E) =
                           Inr (allg ! j))"
proof -
  from assms obtain n a p where n: "allglenval E (proc dbp) = Inr n"
    and w: "allg_walk E (proc dbp) (CurrentThread dbp) p 0 (unat n) [] = Inr allg"
    by (auto simp: GoroutinesInfo_def split: sum.splits prod.splits option.splits)
  from allg_walk_Inr [OF w] n show ?thesis by auto
qed

text \<open>
  In the concrete process the array has two slots, at 0x6100 and 0x6108, and both
  tasklets come back.
\<close>

theorem GoroutinesInfo_complete_witness:
  "GoroutinesInfo E0 dbp0 = Inr [g1, g2] \<and> allglenval E0 (proc dbp0) = Inr 2 \<and>
   parseG E0 (proc dbp0) 1 0x6100 = Inr g1 \<and> parseG E0 (proc dbp0) 1 0x6108 = Inr g2"
proof -
  have run: "GoroutinesInfo E0 dbp0 = Inr [g1, g2]" by code_simp
  have rest: "allglenval E0 (proc dbp0) = Inr 2 \<and>
      parseG E0 (proc dbp0) 1 0x6100 = Inr g1 \<and> parseG E0 (proc dbp0) 1 0x6108 = Inr g2"
    by code_simp
  from GoroutinesInfo_complete [OF run] run rest show ?thesis by simp
qed

subsection \<open>FindBreakpoint agrees with the table\<close>

lemma hw_at_Some_mem:
  "hw_at h addr n cells = Some (i, bp) \<Longrightarrow> bp \<in> set (hw_refs cells) \<and> Addr (h bp) = addr"
  by (induction h addr n cells rule: hw_at.induct) (auto simp: hw_refs_def split: if_splits)

text \<open>
  On a table whose software map is keyed by address, \<^verbatim>\<open>FindBreakpoint(pc)\<close> finds a
  breakpoint exactly when some breakpoint of the table is at \<open>pc\<close>, and what it finds
  is a breakpoint of the table at \<open>pc\<close>.
\<close>

theorem FindBreakpoint_agrees:
  assumes k: "keyed_by_addr dbp"
  shows "(FindBreakpoint dbp pc \<noteq> None) = (\<exists>bp \<in> set (stored dbp). Addr (objs dbp bp) = pc) \<and>
         (\<forall>bp. FindBreakpoint dbp pc = Some bp \<longrightarrow>
                bp \<in> set (stored dbp) \<and> Addr (objs dbp bp) = pc)"
proof -
  let ?h = "objs dbp"
  from k have keyed: "list_all (\<lambda>kv. Addr (?h (snd kv)) = fst kv) (BreakPoints dbp)"
    by (simp add: keyed_by_addr_def)
  have sw1: "bp \<in> snd ` set (BreakPoints dbp) \<and> Addr (?h bp) = pc"
    if "map_of (BreakPoints dbp) pc = Some bp" for bp
  proof -
    from that have "(pc, bp) \<in> set (BreakPoints dbp)" by (rule map_of_SomeD)
    with keyed show ?thesis by (force simp: list_all_iff)
  qed
  have sw2: "map_of (BreakPoints dbp) pc \<noteq> None"
    if "bp \<in> snd ` set (BreakPoints dbp)" "Addr (?h bp) = pc" for bp
  proof -
    from that(1) obtain kk where "(kk, bp) \<in> set (BreakPoints dbp)" by auto
    with keyed that(2) have "(pc, bp) \<in> set (BreakPoints dbp)" by (auto simp: list_all_iff)
    then have "pc \<in> fst ` set (BreakPoints dbp)" by force
    then show ?thesis by (simp add: map_of_eq_None_iff)
  qed
  show ?thesis
  proof (cases "hw_at ?h pc 0 (HWBreakPoints dbp)")
    case None
    then have nohw: "\<forall>bp \<in> set (hw_refs (HWBreakPoints dbp)). Addr (?h bp) \<noteq> pc"
      by (simp add: hw_at_None_iff)
    from None have f: "FindBreakpoint dbp pc = map_of (BreakPoints dbp) pc"
      by (simp add: FindBreakpoint_def)
    have a: "(map_of (BreakPoints dbp) pc \<noteq> None) =
        (\<exists>bp \<in> snd ` set (BreakPoints dbp). Addr (?h bp) = pc)"
    proof (cases "map_of (BreakPoints dbp) pc")
      case None
      with sw2 show ?thesis by blast
    next
      case (Some bp)
      with sw1 [OF Some] show ?thesis by blast
    qed
    have b: "(\<exists>bp \<in> set (stored dbp). Addr (?h bp) = pc) =
        (\<exists>bp \<in> snd ` set (BreakPoints dbp). Addr (?h bp) = pc)"
      using nohw by (auto simp: stored_def)
    have c: "bp \<in> set (stored dbp) \<and> Addr (?h bp) = pc"
      if "map_of (BreakPoints dbp) pc = Some bp" for bp
      using sw1 [OF that] by (simp add: stored_def)
    from a b c show ?thesis
      unfolding f by blast
  next
    case (Some ib)
    obtain i bp where ib: "ib = (i, bp)" by (cases ib)
    with Some have f: "FindBreakpoint dbp pc = Some bp" by (simp add: FindBreakpoint_def)
    from Some ib have "bp \<in> set (hw_refs (HWBreakPoints dbp)) \<and> Addr (?h bp) = pc"
      by (auto dest: hw_at_Some_mem)
    with f show ?thesis by (auto simp: stored_def)
  qed
qed

text \<open>
  In the session \<open>dbp_user\<close> the breakpoints at 0x1050 and 0x1080 are found and
  nothing is found at 0x1060.
\<close>

theorem FindBreakpoint_agrees_witness:
  "keyed_by_addr dbp_user \<and> stored dbp_user = [1, 2] \<and>
   FindBreakpoint dbp_user 0x1050 = Some 1 \<and> Addr (objs dbp_user 1) = 0x1050 \<and>
   FindBreakpoint dbp_user 0x1080 = Some 2 \<and> Addr (objs dbp_user 2) = 0x1080 \<and>
   FindBreakpoint dbp_user 0x1060 = None"
proof -
  have k: "keyed_by_addr dbp_user" by code_simp
  have facts: "stored dbp_user = [1, 2] \<and> Addr (objs dbp_user 1) = 0x1050 \<and>
      Addr (objs dbp_user 2) = 0x1080 \<and> FindBreakpoint dbp_user 0x1050 = Some 1 \<and>
      FindBreakpoint dbp_user 0x1080 = Some 2"
    by code_simp
  have "FindBreakpoint dbp_user 0x1060 = None"
    using FindBreakpoint_agrees [OF k, of "0x1060"] facts by simp
  with k facts show ?thesis by simp
qed

end
